theory Spec2Isabelle
  imports Complex_Main "HOL-Library.Char_ord" "HOL-Library.List_Lexorder"
begin

text \<open>
  A shallow embedding of the services of the social-media backend: the posts service
  (visibility, \<open>GetPost\<close>, \<open>GetPosts\<close>, \<open>GetComments\<close>, \<open>UpdatePost\<close>, \<open>LikePost\<close>,
  \<open>UnlikePost\<close>), the friends service (\<open>AcceptFriendRequest\<close>, \<open>RejectFriendRequest\<close>,
  \<open>CheckFriendship\<close>) and the groups service (\<open>LeaveGroup\<close>), each with the repository
  functions it calls. A service function takes the database as a record of tables and
  returns the new one with its result; the clock, the generated ids and the order in
  which the database answers a query sorted by \<open>created_at\<close> are parameters.
\<close>

section \<open>Go integers\<close>

text \<open>
  The services compute with Go's \<open>int\<close> and \<open>int64\<close> (64 bits, two's complement) and
  narrow results with \<open>int32(...)\<close>. Values are modelled as mathematical integers and
  the wrap-around of every arithmetic result and conversion is written out.
\<close>

definition wrap :: "nat \<Rightarrow> int \<Rightarrow> int" where
  "wrap w x = (x + 2 ^ (w - 1)) mod 2 ^ w - 2 ^ (w - 1)"

definition int64 :: "int \<Rightarrow> int" where
  "int64 x = wrap 64 x"

definition int32 :: "int \<Rightarrow> int" where
  "int32 x = wrap 32 x"

text \<open>
  Go's \<open>/\<close> on integers truncates towards zero. (It panics on a zero divisor; the
  services below divide by a limit between 1 and 100 only.)
\<close>

definition quo :: "int \<Rightarrow> int \<Rightarrow> int" where
  "quo a b = int64 (sgn a * sgn b * (\<bar>a\<bar> div \<bar>b\<bar>))"

section \<open>Errors\<close>

text \<open>\<open>status.Error(code, message)\<close> of the posts service.\<close>

datatype code = InvalidArgument | NotFound | PermissionDenied | AlreadyExists | Internal

datatype status_error = Status code string

text \<open>
  The friends and groups services return plain Go errors: \<open>errors.New(message)\<close>, or
  the error of the store (\<open>gorm.ErrRecordNotFound\<close>, a duplicate key).
\<close>

datatype go_error = ErrorsNew string | ErrRecordNotFound | ErrDuplicateEntry

section \<open>Posts service: data\<close>

text \<open>
  The \<open>media\<close> column holds text: empty, the JSON of a list of strings (modelled by
  the list it denotes), or text that \<open>json.Unmarshal\<close> rejects.
\<close>

datatype media_column = MediaEmpty | MediaJSON "string list" | MediaInvalid

text \<open>
  \<open>models.Post\<close>. Times are instants of a clock, \<open>gorm.DeletedAt\<close> is \<open>None\<close> for a
  live row, and the slice \<open>MediaArray\<close> is \<open>None\<close> when it is \<open>nil\<close>. The posts table's
  migration is not among the sources; the two counters are taken as integer columns.
\<close>

record post =
  post_ID :: string
  post_AuthorID :: string
  post_AuthorName :: string
  post_AuthorAvatar :: string
  post_Content :: string
  post_Visibility :: string
  post_GroupID :: string
  post_GroupName :: string
  post_Media :: media_column
  post_MediaArray :: "string list option"
  post_LikesCount :: int
  post_CommentsCount :: int
  post_CreatedAt :: nat
  post_UpdatedAt :: nat
  post_DeletedAt :: "nat option"

record comment =
  comment_ID :: string
  comment_PostID :: string
  comment_AuthorID :: string
  comment_AuthorName :: string
  comment_AuthorAvatar :: string
  comment_Content :: string
  comment_CreatedAt :: nat
  comment_UpdatedAt :: nat
  comment_DeletedAt :: "nat option"

record like =
  like_ID :: string
  like_PostID :: string
  like_UserID :: string
  like_CreatedAt :: nat
  like_DeletedAt :: "nat option"

text \<open>
  The database of the posts service: one list of rows per table, in insertion order.
  A statement of the object-relational mapper on a model with a \<open>DeletedAt\<close> field
  sees live rows only, and \<open>Delete\<close> stamps \<open>DeletedAt\<close> instead of removing the row.
  The store is reliable: a statement fails only where the rows and the schema make it
  fail (no row found, a duplicate key, text that does not parse). A write whose error
  the service returns has an \<open>option\<close> result, \<open>None\<close> for the failure, also where
  nothing in the schema can make it fail; a read that only counts or lists rows, and a
  counter update whose error the service only logs, is a total function.
\<close>

record post_store =
  posts :: "post list"
  comments :: "comment list"
  likes :: "like list"

section \<open>Posts service: repositories\<close>

text \<open>
  \<open>Order("created_at DESC")\<close>: the matching rows come back with the newest first. In
  which order rows of equal \<open>created_at\<close> come back is left to the database, so the order
  of an answer is a parameter of every finder that sorts (\<open>ord\<close> for posts, \<open>cord\<close> for
  comments): the function from the matching rows to the list that the database returns.
  \<open>created_at_desc created rows answer\<close> says all that is known of an answer: it holds the
  same rows, each as often as \<open>rows\<close> does, and \<open>created_at\<close> never increases along it.
\<close>

definition created_at_desc :: "('a \<Rightarrow> nat) \<Rightarrow> 'a list \<Rightarrow> 'a list \<Rightarrow> bool" where
  "created_at_desc created rows answer \<longleftrightarrow>
     (\<forall>r \<in> set answer \<union> set rows. count_list answer r = count_list rows r) \<and>
     sorted_wrt (\<lambda>x y. created y \<le> created x) answer"

text \<open>
  \<open>Offset(offset).Limit(limit)\<close>: the mapper emits the OFFSET clause only for a positive
  offset, and no row for a limit of zero; the services below pass limits of 1 to 100.
\<close>

definition offset_limit :: "int \<Rightarrow> int \<Rightarrow> 'a list \<Rightarrow> 'a list" where
  "offset_limit offset limit rows = take (nat limit) (drop (nat offset) rows)"

text \<open>The loop that parses the media text of a row into \<open>MediaArray\<close>.\<close>

definition parse_media :: "post \<Rightarrow> post option" where
  "parse_media p =
     (case post_Media p of
        MediaEmpty \<Rightarrow> Some (p\<lparr>post_MediaArray := None\<rparr>)
      | MediaJSON xs \<Rightarrow> Some (p\<lparr>post_MediaArray := Some xs\<rparr>)
      | MediaInvalid \<Rightarrow> None)"

fun parse_all :: "post list \<Rightarrow> post list option" where
  "parse_all [] = Some []"
| "parse_all (p # ps) =
     (case parse_media p of
        None \<Rightarrow> None
      | Some q \<Rightarrow> (case parse_all ps of None \<Rightarrow> None | Some qs \<Rightarrow> Some (q # qs)))"

definition post_live :: "post \<Rightarrow> bool" where
  "post_live p = (post_DeletedAt p = None)"

definition postRepo_FindByID :: "post list \<Rightarrow> string \<Rightarrow> post option" where
  "postRepo_FindByID tbl pid =
     (case find (\<lambda>p. post_ID p = pid \<and> post_live p) tbl of
        None \<Rightarrow> None
      | Some p \<Rightarrow> parse_media p)"

text \<open>
  The four paginated finders share one shape: count the live rows that match, read one
  page of them, parse the media of the page. \<open>offset := (page - 1) * limit\<close> is
  computed on Go's \<open>int\<close>.
\<close>

definition find_page ::
  "(post list \<Rightarrow> post list) \<Rightarrow> (post \<Rightarrow> bool) \<Rightarrow> post list \<Rightarrow> int \<Rightarrow> int \<Rightarrow> (post list \<times> int) option" where
  "find_page ord matches tbl page limit =
     (let offset = int64 (int64 (page - 1) * limit);
          rows = filter (\<lambda>p. matches p \<and> post_live p) tbl;
          count = int (length rows)
      in case parse_all (offset_limit offset limit (ord rows)) of
           None \<Rightarrow> None
         | Some ps \<Rightarrow> Some (ps, count))"

definition postRepo_FindByAuthor ::
  "(post list \<Rightarrow> post list) \<Rightarrow> post list \<Rightarrow> string \<Rightarrow> int \<Rightarrow> int \<Rightarrow> (post list \<times> int) option" where
  "postRepo_FindByAuthor ord tbl authorID page limit =
     find_page ord (\<lambda>p. post_AuthorID p = authorID) tbl page limit"

definition postRepo_FindByGroup ::
  "(post list \<Rightarrow> post list) \<Rightarrow> post list \<Rightarrow> string \<Rightarrow> int \<Rightarrow> int \<Rightarrow> (post list \<times> int) option" where
  "postRepo_FindByGroup ord tbl groupID page limit =
     find_page ord (\<lambda>p. post_GroupID p = groupID) tbl page limit"

definition postRepo_FindPublic ::
  "(post list \<Rightarrow> post list) \<Rightarrow> post list \<Rightarrow> int \<Rightarrow> int \<Rightarrow> (post list \<times> int) option" where
  "postRepo_FindPublic ord tbl page limit =
     find_page ord (\<lambda>p. post_Visibility p = ''public'') tbl page limit"

text \<open>A \<open>nil\<close> slice of friend ids binds like an empty one: \<open>author_id IN (NULL)\<close> matches no row.\<close>

definition postRepo_FindVisible ::
  "(post list \<Rightarrow> post list) \<Rightarrow> post list \<Rightarrow> string \<Rightarrow> string list option \<Rightarrow> int \<Rightarrow> int \<Rightarrow> (post list \<times> int) option" where
  "postRepo_FindVisible ord tbl userID friendIDs page limit =
     find_page ord (\<lambda>p. post_Visibility p = ''public'' \<or>
                     (post_Visibility p = ''private'' \<and>
                      post_AuthorID p \<in> set (case friendIDs of None \<Rightarrow> [] | Some fs \<Rightarrow> fs)))
       tbl page limit"

text \<open>
  \<open>Save\<close> writes every column of the row whose primary key the struct carries, and
  inserts the struct when no row has that key. \<open>MediaArray\<close> is not a column.
\<close>

definition save_post :: "post \<Rightarrow> post list \<Rightarrow> post list" where
  "save_post p tbl =
     (let row = p\<lparr>post_MediaArray := None\<rparr> in
      if \<exists>r \<in> set tbl. post_ID r = post_ID p \<and> post_live r
      then map (\<lambda>r. if post_ID r = post_ID p \<and> post_live r then row else r) tbl
      else if \<exists>r \<in> set tbl. post_ID r = post_ID p
      then map (\<lambda>r. if post_ID r = post_ID p then row else r) tbl
      else tbl @ [row])"

text \<open>
  \<open>postRepository.Update\<close>: the media text is rewritten only for a non-empty
  \<open>MediaArray\<close>; the mapper stamps \<open>UpdatedAt\<close>. Returns the struct as the caller sees
  it afterwards, and the table.
\<close>

definition postRepo_Update :: "nat \<Rightarrow> post \<Rightarrow> post list \<Rightarrow> (post \<times> post list) option" where
  "postRepo_Update now p tbl =
     (let p1 = (case post_MediaArray p of
                  Some (x # xs) \<Rightarrow> p\<lparr>post_Media := MediaJSON (x # xs)\<rparr>
                | _ \<Rightarrow> p);
          p2 = p1\<lparr>post_UpdatedAt := now\<rparr>
      in Some (p2, save_post p2 tbl))"

text \<open>\<open>Model(&Post{}).Where("id = ?", id).Update(column, expression)\<close> also stamps \<open>updated_at\<close>.\<close>

definition postRepo_IncrementLikesCount :: "nat \<Rightarrow> string \<Rightarrow> post list \<Rightarrow> post list" where
  "postRepo_IncrementLikesCount now pid tbl =
     map (\<lambda>p. if post_ID p = pid \<and> post_live p
               then p\<lparr>post_LikesCount := post_LikesCount p + 1, post_UpdatedAt := now\<rparr>
               else p) tbl"

definition postRepo_DecrementLikesCount :: "nat \<Rightarrow> string \<Rightarrow> post list \<Rightarrow> post list" where
  "postRepo_DecrementLikesCount now pid tbl =
     map (\<lambda>p. if post_ID p = pid \<and> post_live p
               then p\<lparr>post_LikesCount := post_LikesCount p - 1, post_UpdatedAt := now\<rparr>
               else p) tbl"

definition like_live :: "like \<Rightarrow> bool" where
  "like_live l = (like_DeletedAt l = None)"

definition likeRepo_FindByPostAndUser :: "like list \<Rightarrow> string \<Rightarrow> string \<Rightarrow> like option" where
  "likeRepo_FindByPostAndUser tbl postID userID =
     find (\<lambda>l. like_PostID l = postID \<and> like_UserID l = userID \<and> like_live l) tbl"

text \<open>
  \<open>likeRepository.Create\<close>. The hook \<open>BeforeCreate\<close> fills an empty id with
  \<open>generateUUID()\<close>, a value read from the clock and passed here as \<open>newID\<close>. The
  likes table has \<open>id\<close> as primary key and \<open>UNIQUE INDEX idx_likes_post_user
  (post_id, user_id)\<close>: both range over all rows, soft-deleted ones included, and the
  insert fails on a duplicate. (The foreign key to \<open>posts(id)\<close> holds wherever the
  service calls this, after it has found the post.)
\<close>

definition likeRepo_Create :: "string \<Rightarrow> like \<Rightarrow> like list \<Rightarrow> like list option" where
  "likeRepo_Create newID l tbl =
     (let row = (if like_ID l = [] then l\<lparr>like_ID := newID\<rparr> else l) in
      if \<exists>r \<in> set tbl. like_ID r = like_ID row \<or>
                         (like_PostID r = like_PostID row \<and> like_UserID r = like_UserID row)
      then None
      else Some (tbl @ [row]))"

text \<open>\<open>Delete(&models.Like{}, "id = ?", id)\<close>: a soft delete of the live rows with that id.\<close>

definition likeRepo_Delete :: "nat \<Rightarrow> string \<Rightarrow> like list \<Rightarrow> like list option" where
  "likeRepo_Delete now lid tbl =
     Some (map (\<lambda>l. if like_ID l = lid \<and> like_live l then l\<lparr>like_DeletedAt := Some now\<rparr> else l) tbl)"

definition comment_live :: "comment \<Rightarrow> bool" where
  "comment_live c = (comment_DeletedAt c = None)"

definition commentRepo_FindByPost ::
  "(comment list \<Rightarrow> comment list) \<Rightarrow> comment list \<Rightarrow> string \<Rightarrow> int \<Rightarrow> int \<Rightarrow> comment list \<times> int" where
  "commentRepo_FindByPost cord tbl postID page limit =
     (let offset = int64 (int64 (page - 1) * limit);
          rows = filter (\<lambda>c. comment_PostID c = postID \<and> comment_live c) tbl
      in (offset_limit offset limit (cord rows), int (length rows)))"

section \<open>Posts service: operations\<close>

text \<open>The loop over \<open>friendIDs\<close> in \<open>isPostVisibleToUser\<close>.\<close>

fun friend_loop :: "string list \<Rightarrow> string \<Rightarrow> bool" where
  "friend_loop [] authorID = False"
| "friend_loop (friendID # rest) authorID =
     (if friendID = authorID then True else friend_loop rest authorID)"

definition isPostVisibleToUser :: "post \<Rightarrow> string \<Rightarrow> string list option \<Rightarrow> bool" where
  "isPostVisibleToUser p userID friendIDs =
     (if post_Visibility p = ''public'' then True
      else if userID = post_AuthorID p then True
      else if post_Visibility p = ''private'' \<and>
              (case friendIDs of None \<Rightarrow> False | Some fs \<Rightarrow> friend_loop fs (post_AuthorID p))
      then True
      else if post_GroupID p \<noteq> [] then True
      else False)"

definition IsLiked :: "post_store \<Rightarrow> string \<Rightarrow> string \<Rightarrow> bool" where
  "IsLiked s postID userID =
     (if postID = [] then False
      else if userID = [] then False
      else case likeRepo_FindByPostAndUser (likes s) postID userID of
             None \<Rightarrow> False
           | Some _ \<Rightarrow> True)"

definition GetPost :: "post_store \<Rightarrow> string \<Rightarrow> string \<Rightarrow> status_error + (post \<times> bool)" where
  "GetPost s postID userID =
     (if postID = [] then Inl (Status InvalidArgument ''post ID is required'')
      else case postRepo_FindByID (posts s) postID of
             None \<Rightarrow> Inl (Status NotFound ''post not found'')
           | Some p \<Rightarrow>
               if \<not> isPostVisibleToUser p userID None
               then Inl (Status PermissionDenied ''you don't have permission to view this post'')
               else Inr (p, if userID \<noteq> [] then IsLiked s postID userID else False))"

text \<open>
  \<open>GetPosts\<close>. The loop that keeps the visible posts of the page is a filter (its
  call of \<open>IsLiked\<close> has no effect). Result: the visible posts, the count and the
  total pages.
\<close>

definition GetPosts ::
  "(post list \<Rightarrow> post list) \<Rightarrow> post_store \<Rightarrow> string \<Rightarrow> string \<Rightarrow> string \<Rightarrow> string \<Rightarrow> int \<Rightarrow> int \<Rightarrow> string list option
     \<Rightarrow> status_error + (post list \<times> int \<times> int)" where
  "GetPosts ord s userID authorID groupID visibility reqPage reqLimit friendIDs =
     (let page = (if reqPage < 1 then 1 else reqPage);
          limit = (if reqLimit < 1 \<or> reqLimit > 100 then 10 else reqLimit);
          found =
            (if authorID \<noteq> [] then postRepo_FindByAuthor ord (posts s) authorID page limit
             else if groupID \<noteq> [] then postRepo_FindByGroup ord (posts s) groupID page limit
             else if userID = [] \<or> visibility = ''public'' then postRepo_FindPublic ord (posts s) page limit
             else postRepo_FindVisible ord (posts s) userID friendIDs page limit)
      in case found of
           None \<Rightarrow> Inl (Status Internal ''failed to get posts'')
         | Some (ps, count) \<Rightarrow>
             Inr (filter (\<lambda>p. isPostVisibleToUser p userID friendIDs) ps,
                  count,
                  int32 (quo (int64 (int64 (count + limit) - 1)) limit)))"

definition GetComments ::
  "(comment list \<Rightarrow> comment list) \<Rightarrow> post_store \<Rightarrow> string \<Rightarrow> int \<Rightarrow> int \<Rightarrow> status_error + (comment list \<times> int \<times> int)" where
  "GetComments cord s postID reqPage reqLimit =
     (if postID = [] then Inl (Status InvalidArgument ''post ID is required'')
      else
        let page = (if reqPage < 1 then 1 else reqPage);
            limit = (if reqLimit < 1 \<or> reqLimit > 100 then 10 else reqLimit);
            (cs, count) = commentRepo_FindByPost cord (comments s) postID page limit
        in Inr (cs, count, int32 (quo (int64 (int64 (count + limit) - 1)) limit)))"

text \<open>
  \<open>UpdatePost\<close>; \<open>media\<close> is \<open>None\<close> for a \<open>nil\<close> slice. The service's \<open>time.Now()\<close>
  and the mapper's stamp are one instant \<open>now\<close>.
\<close>

definition UpdatePost ::
  "nat \<Rightarrow> post_store \<Rightarrow> string \<Rightarrow> string \<Rightarrow> string \<Rightarrow> string \<Rightarrow> string list option
     \<Rightarrow> (status_error + post) \<times> post_store" where
  "UpdatePost now s postID userID content visibility media =
     (if postID = [] then (Inl (Status InvalidArgument ''post ID is required''), s)
      else if userID = [] then (Inl (Status InvalidArgument ''user ID is required''), s)
      else if content = [] then (Inl (Status InvalidArgument ''content is required''), s)
      else if visibility \<noteq> [] \<and> visibility \<noteq> ''public'' \<and> visibility \<noteq> ''private''
      then (Inl (Status InvalidArgument (''visibility must be 'public' or 'private'' @ [CHR 0x27])), s)
      else case postRepo_FindByID (posts s) postID of
             None \<Rightarrow> (Inl (Status NotFound ''post not found''), s)
           | Some p \<Rightarrow>
               if post_AuthorID p \<noteq> userID
               then (Inl (Status PermissionDenied ''you don't have permission to update this post''), s)
               else
                 let p1 = p\<lparr>post_Content := content\<rparr>;
                     p2 = (if visibility \<noteq> [] then p1\<lparr>post_Visibility := visibility\<rparr> else p1);
                     p3 = (case media of None \<Rightarrow> p2 | Some m \<Rightarrow> p2\<lparr>post_MediaArray := Some m\<rparr>);
                     p4 = p3\<lparr>post_UpdatedAt := now\<rparr>
                 in (case postRepo_Update now p4 (posts s) of
                       None \<Rightarrow> (Inl (Status Internal ''failed to update post''), s)
                     | Some (p5, tbl) \<Rightarrow> (Inr p5, s\<lparr>posts := tbl\<rparr>)))"

text \<open>
  \<open>LikePost\<close> and \<open>UnlikePost\<close> return a count together with the error, so the result
  is the pair of Go's two return values (\<open>None\<close> for a \<open>nil\<close> error) and the store.
\<close>

definition LikePost ::
  "nat \<Rightarrow> string \<Rightarrow> post_store \<Rightarrow> string \<Rightarrow> string \<Rightarrow> (int \<times> status_error option) \<times> post_store" where
  "LikePost now newID s postID userID =
     (if postID = [] then ((0, Some (Status InvalidArgument ''post ID is required'')), s)
      else if userID = [] then ((0, Some (Status InvalidArgument ''user ID is required'')), s)
      else case postRepo_FindByID (posts s) postID of
             None \<Rightarrow> ((0, Some (Status NotFound ''post not found'')), s)
           | Some p \<Rightarrow>
               (case likeRepo_FindByPostAndUser (likes s) postID userID of
                  Some _ \<Rightarrow>
                    ((int32 (post_LikesCount p),
                      Some (Status AlreadyExists ''you have already liked this post'')), s)
                | None \<Rightarrow>
                    (case likeRepo_Create newID
                            \<lparr>like_ID = [], like_PostID = postID, like_UserID = userID,
                             like_CreatedAt = now, like_DeletedAt = None\<rparr> (likes s) of
                       None \<Rightarrow> ((0, Some (Status Internal ''failed to like post'')), s)
                     | Some tbl \<Rightarrow>
                         let s1 = s\<lparr>likes := tbl\<rparr>;
                             s2 = s1\<lparr>posts := postRepo_IncrementLikesCount now postID (posts s1)\<rparr>
                         in (case postRepo_FindByID (posts s2) postID of
                               None \<Rightarrow> ((int32 (int64 (post_LikesCount p + 1)), None), s2)
                             | Some updatedPost \<Rightarrow> ((int32 (post_LikesCount updatedPost), None), s2)))))"

definition UnlikePost ::
  "nat \<Rightarrow> post_store \<Rightarrow> string \<Rightarrow> string \<Rightarrow> (int \<times> status_error option) \<times> post_store" where
  "UnlikePost now s postID userID =
     (if postID = [] then ((0, Some (Status InvalidArgument ''post ID is required'')), s)
      else if userID = [] then ((0, Some (Status InvalidArgument ''user ID is required'')), s)
      else case postRepo_FindByID (posts s) postID of
             None \<Rightarrow> ((0, Some (Status NotFound ''post not found'')), s)
           | Some p \<Rightarrow>
               (case likeRepo_FindByPostAndUser (likes s) postID userID of
                  None \<Rightarrow>
                    ((int32 (post_LikesCount p),
                      Some (Status NotFound ''you have not liked this post'')), s)
                | Some l \<Rightarrow>
                    (case likeRepo_Delete now (like_ID l) (likes s) of
                       None \<Rightarrow> ((0, Some (Status Internal ''failed to unlike post'')), s)
                     | Some tbl \<Rightarrow>
                         let s1 = s\<lparr>likes := tbl\<rparr>;
                             s2 = s1\<lparr>posts := postRepo_DecrementLikesCount now postID (posts s1)\<rparr>
                         in (case postRepo_FindByID (posts s2) postID of
                               None \<Rightarrow> ((int32 (int64 (post_LikesCount p - 1)), None), s2)
                             | Some updatedPost \<Rightarrow> ((int32 (post_LikesCount updatedPost), None), s2)))))"

section \<open>Friends service\<close>

record friend_request =
  request_ID :: string
  request_SenderID :: string
  request_ReceiverID :: string
  request_Status :: string
  request_CreatedAt :: nat
  request_UpdatedAt :: nat
  request_DeletedAt :: "nat option"

record friendship =
  friendship_ID :: string
  friendship_UserID :: string
  friendship_FriendID :: string
  friendship_CreatedAt :: nat
  friendship_UpdatedAt :: nat
  friendship_DeletedAt :: "nat option"

record blocked_user =
  blocked_ID :: string
  blocked_UserID :: string
  blocked_BlockedUserID :: string
  blocked_CreatedAt :: nat
  blocked_UpdatedAt :: nat
  blocked_DeletedAt :: "nat option"

text \<open>The databases of the friends and the groups service are modelled like that of the posts service.\<close>

record friend_store =
  friend_requests :: "friend_request list"
  friendships :: "friendship list"
  blocked_users :: "blocked_user list"

definition friendRepo_GetFriendRequestByID :: "friend_request list \<Rightarrow> string \<Rightarrow> friend_request option" where
  "friendRepo_GetFriendRequestByID tbl rid =
     find (\<lambda>r. request_ID r = rid \<and> request_DeletedAt r = None) tbl"

definition friendRepo_UpdateFriendRequestStatus ::
  "nat \<Rightarrow> string \<Rightarrow> string \<Rightarrow> friend_request list \<Rightarrow> friend_request list option" where
  "friendRepo_UpdateFriendRequestStatus now rid status tbl =
     Some (map (\<lambda>r. if request_ID r = rid \<and> request_DeletedAt r = None
                      then r\<lparr>request_Status := status, request_UpdatedAt := now\<rparr>
                      else r) tbl)"

text \<open>
  \<open>friendRepository.CreateFriendship\<close>. \<open>BeforeCreate\<close> fills an empty id with the
  generated \<open>newID\<close> and the mapper stamps both times. The primary key rejects an id
  that some row has. The index \<open>idx_friendships_user_friend (user_id, friend_id,
  deleted_at)\<close> cannot reject the new row: its \<open>deleted_at\<close> is NULL, and NULLs
  are distinct in a unique index.
\<close>

definition friendRepo_CreateFriendship ::
  "nat \<Rightarrow> string \<Rightarrow> friendship \<Rightarrow> friendship list \<Rightarrow> friendship list option" where
  "friendRepo_CreateFriendship now newID f tbl =
     (let f1 = (if friendship_ID f = [] then f\<lparr>friendship_ID := newID\<rparr> else f);
          row = f1\<lparr>friendship_CreatedAt := now, friendship_UpdatedAt := now\<rparr>
      in if \<exists>r \<in> set tbl. friendship_ID r = friendship_ID row
         then None
         else Some (tbl @ [row]))"

text \<open>
  \<open>friendRepository.CheckFriendship\<close>: the status and the id of the pending request.
  The request is read with \<open>First\<close>, which orders by the primary key: of several pending
  requests between the two users, the one with the least id is taken. Ids are compared as
  strings, character by character in the order of the character codes.
\<close>

definition friendRepo_CheckFriendship :: "friend_store \<Rightarrow> string \<Rightarrow> string \<Rightarrow> string \<times> string" where
  "friendRepo_CheckFriendship s userID friendID =
     (let friendshipCount =
            int (length (filter (\<lambda>f. friendship_UserID f = userID \<and> friendship_FriendID f = friendID \<and>
                                      friendship_DeletedAt f = None) (friendships s)))
      in if friendshipCount > 0 then (''friends'', [])
         else case find (\<lambda>r. ((request_SenderID r = userID \<and> request_ReceiverID r = friendID) \<or>
                                (request_SenderID r = friendID \<and> request_ReceiverID r = userID)) \<and>
                               request_Status r = ''pending'' \<and> request_DeletedAt r = None)
                         (sort_key request_ID (friend_requests s)) of
                Some request \<Rightarrow> (''pending'', request_ID request)
              | None \<Rightarrow>
                  let blockedCount =
                        int (length (filter (\<lambda>b. ((blocked_UserID b = userID \<and> blocked_BlockedUserID b = friendID) \<or>
                                                    (blocked_UserID b = friendID \<and> blocked_BlockedUserID b = userID)) \<and>
                                                   blocked_DeletedAt b = None) (blocked_users s)))
                  in if blockedCount > 0 then (''blocked'', []) else (''none'', []))"

definition CheckFriendship :: "friend_store \<Rightarrow> string \<Rightarrow> string \<Rightarrow> string \<times> string" where
  "CheckFriendship s userID friendID =
     (if userID = friendID then (''self'', [])
      else friendRepo_CheckFriendship s userID friendID)"

text \<open>
  \<open>AcceptFriendRequest\<close>; \<open>newID1\<close> and \<open>newID2\<close> are the ids generated for the two
  friendship rows. The three writes are separate statements: a failure of a later one
  leaves the earlier ones in the store.
\<close>

definition AcceptFriendRequest ::
  "nat \<Rightarrow> string \<Rightarrow> string \<Rightarrow> friend_store \<Rightarrow> string \<Rightarrow> string
     \<Rightarrow> (go_error + friend_request) \<times> friend_store" where
  "AcceptFriendRequest now newID1 newID2 s requestID userID =
     (case friendRepo_GetFriendRequestByID (friend_requests s) requestID of
        None \<Rightarrow> (Inl ErrRecordNotFound, s)
      | Some request \<Rightarrow>
          if request_ReceiverID request \<noteq> userID
          then (Inl (ErrorsNew ''not authorized to accept this friend request''), s)
          else if request_Status request \<noteq> ''pending''
          then (Inl (ErrorsNew ''friend request is not pending''), s)
          else
            (case friendRepo_UpdateFriendRequestStatus now requestID ''accepted'' (friend_requests s) of
               None \<Rightarrow> (Inl ErrDuplicateEntry, s)
             | Some requests \<Rightarrow>
                 let s1 = s\<lparr>friend_requests := requests\<rparr> in
                 (case friendRepo_CreateFriendship now newID1
                         \<lparr>friendship_ID = [], friendship_UserID = request_SenderID request,
                          friendship_FriendID = request_ReceiverID request,
                          friendship_CreatedAt = 0, friendship_UpdatedAt = 0,
                          friendship_DeletedAt = None\<rparr> (friendships s1) of
                    None \<Rightarrow> (Inl ErrDuplicateEntry, s1)
                  | Some tbl1 \<Rightarrow>
                      let s2 = s1\<lparr>friendships := tbl1\<rparr> in
                      (case friendRepo_CreateFriendship now newID2
                              \<lparr>friendship_ID = [], friendship_UserID = request_ReceiverID request,
                               friendship_FriendID = request_SenderID request,
                               friendship_CreatedAt = 0, friendship_UpdatedAt = 0,
                               friendship_DeletedAt = None\<rparr> (friendships s2) of
                         None \<Rightarrow> (Inl ErrDuplicateEntry, s2)
                       | Some tbl2 \<Rightarrow>
                           (Inr (request\<lparr>request_Status := ''accepted'', request_UpdatedAt := now\<rparr>),
                            s2\<lparr>friendships := tbl2\<rparr>)))))"

definition RejectFriendRequest ::
  "nat \<Rightarrow> friend_store \<Rightarrow> string \<Rightarrow> string \<Rightarrow> (go_error + friend_request) \<times> friend_store" where
  "RejectFriendRequest now s requestID userID =
     (case friendRepo_GetFriendRequestByID (friend_requests s) requestID of
        None \<Rightarrow> (Inl ErrRecordNotFound, s)
      | Some request \<Rightarrow>
          if request_ReceiverID request \<noteq> userID
          then (Inl (ErrorsNew ''not authorized to reject this friend request''), s)
          else if request_Status request \<noteq> ''pending''
          then (Inl (ErrorsNew ''friend request is not pending''), s)
          else
            (case friendRepo_UpdateFriendRequestStatus now requestID ''rejected'' (friend_requests s) of
               None \<Rightarrow> (Inl ErrDuplicateEntry, s)
             | Some requests \<Rightarrow>
                 (Inr (request\<lparr>request_Status := ''rejected'', request_UpdatedAt := now\<rparr>),
                  s\<lparr>friend_requests := requests\<rparr>)))"

section \<open>Groups service\<close>










section \<open>Notions used in the statements\<close>

text \<open>
  The live rows that the WHERE clause of the branch \<open>GetPosts\<close> selects matches: the
  author filter, else the group filter, else the public listing, else the listing of
  \<open>FindVisible\<close>.
\<close>

definition selected_rows ::
  "post_store \<Rightarrow> string \<Rightarrow> string \<Rightarrow> string \<Rightarrow> string \<Rightarrow> string list option \<Rightarrow> post list" where
  "selected_rows s userID authorID groupID visibility friendIDs =
     filter (\<lambda>p. (if authorID \<noteq> [] then post_AuthorID p = authorID
                  else if groupID \<noteq> [] then post_GroupID p = groupID
                  else if userID = [] \<or> visibility = ''public'' then post_Visibility p = ''public''
                  else post_Visibility p = ''public'' \<or>
                       (post_Visibility p = ''private'' \<and>
                        post_AuthorID p \<in> set (case friendIDs of None \<Rightarrow> [] | Some fs \<Rightarrow> fs))) \<and>
                 post_live p) (posts s)"

text \<open>The live comments of a post, which \<open>FindByPost\<close> counts and pages.\<close>

definition comments_of :: "post_store \<Rightarrow> string \<Rightarrow> comment list" where
  "comments_of s postID = filter (\<lambda>c. comment_PostID c = postID \<and> comment_live c) (comments s)"

text \<open>The fields of a post that \<open>UpdatePost\<close> has no business with.\<close>

definition same_identity :: "post \<Rightarrow> post \<Rightarrow> bool" where
  "same_identity p q \<longleftrightarrow>
     post_ID q = post_ID p \<and> post_AuthorID q = post_AuthorID p \<and>
     post_AuthorName q = post_AuthorName p \<and> post_AuthorAvatar q = post_AuthorAvatar p \<and>
     post_GroupID q = post_GroupID p \<and> post_GroupName q = post_GroupName p \<and>
     post_LikesCount q = post_LikesCount p \<and> post_CommentsCount q = post_CommentsCount p \<and>
     post_CreatedAt q = post_CreatedAt p"



section \<open>Example data\<close>

text \<open>Ids for numbered rows: \<open>binary_id k i\<close> spells \<open>i\<close> with \<open>k\<close> binary digits.\<close>

fun binary_id :: "nat \<Rightarrow> nat \<Rightarrow> string" where
  "binary_id 0 i = []"
| "binary_id (Suc k) i = (if even i then CHR ''0'' else CHR ''1'') # binary_id k (i div 2)"

text \<open>
  One order in which a database may answer \<open>ORDER BY created_at DESC\<close>: of rows with the
  same \<open>created_at\<close>, the one inserted last comes first.
\<close>

definition newest_first :: "('a \<Rightarrow> nat) \<Rightarrow> 'a list \<Rightarrow> 'a list" where
  "newest_first created rows = rev (sort_key created rows)"

text \<open>
  Rows after the seed file of the posts service: \<open>post2\<close> is the private post of
  \<open>user1\<close>. \<open>post6\<close> is what \<open>CreatePost\<close> stores for \<open>user1\<close> with visibility
  \<open>private\<close> and group id \<open>group1\<close>.
\<close>

definition private_post :: post where
  "private_post =
     \<lparr>post_ID = ''post2'', post_AuthorID = ''user1'', post_AuthorName = ''John Doe'',
      post_AuthorAvatar = ''https://example.com/avatars/john.jpg'',
      post_Content = ''This is a private post by John'', post_Visibility = ''private'',
      post_GroupID = [], post_GroupName = [], post_Media = MediaEmpty, post_MediaArray = None,
      post_LikesCount = 0, post_CommentsCount = 0, post_CreatedAt = 2, post_UpdatedAt = 2,
      post_DeletedAt = None\<rparr>"

definition private_group_post :: post where
  "private_group_post =
     \<lparr>post_ID = ''post6'', post_AuthorID = ''user1'', post_AuthorName = ''User user1'',
      post_AuthorAvatar = [], post_Content = ''For the group'', post_Visibility = ''private'',
      post_GroupID = ''group1'', post_GroupName = ''Group group1'', post_Media = MediaEmpty,
      post_MediaArray = None, post_LikesCount = 0, post_CommentsCount = 0, post_CreatedAt = 6,
      post_UpdatedAt = 6, post_DeletedAt = None\<rparr>"

definition private_store :: post_store where
  "private_store = \<lparr>posts = [private_post, private_group_post], comments = [], likes = []\<rparr>"

text \<open>
  The scenario of the likes: \<open>userA\<close> has one public post with content \<open>hello\<close> and no
  like yet. \<open>unliked_store\<close> is the store after \<open>userB\<close> has liked the post at time 1
  (the like got the id \<open>like1\<close>) and unliked it at time 2.
\<close>

definition hello_post :: post where
  "hello_post =
     \<lparr>post_ID = ''post1'', post_AuthorID = ''userA'', post_AuthorName = ''User userA'',
      post_AuthorAvatar = [], post_Content = ''hello'', post_Visibility = ''public'',
      post_GroupID = [], post_GroupName = [], post_Media = MediaEmpty, post_MediaArray = None,
      post_LikesCount = 0, post_CommentsCount = 0, post_CreatedAt = 0, post_UpdatedAt = 0,
      post_DeletedAt = None\<rparr>"

definition hello_store :: post_store where
  "hello_store = \<lparr>posts = [hello_post], comments = [], likes = []\<rparr>"

definition unliked_store :: post_store where
  "unliked_store =
     \<lparr>posts = [hello_post\<lparr>post_UpdatedAt := 2\<rparr>], comments = [],
      likes = [\<lparr>like_ID = ''like1'', like_PostID = ''post1'', like_UserID = ''userB'',
                like_CreatedAt = 1, like_DeletedAt = Some 2\<rparr>]\<rparr>"

text \<open>A store with the \<open>hello\<close> post and \<open>n\<close> comments on it.\<close>

definition nth_comment :: "nat \<Rightarrow> comment" where
  "nth_comment i =
     \<lparr>comment_ID = binary_id 32 i, comment_PostID = ''post1'', comment_AuthorID = ''user2'',
      comment_AuthorName = ''Jane Smith'', comment_AuthorAvatar = [],
      comment_Content = ''Great post, John!'', comment_CreatedAt = i, comment_UpdatedAt = i,
      comment_DeletedAt = None\<rparr>"

definition comment_store :: "nat \<Rightarrow> post_store" where
  "comment_store n = \<lparr>posts = [hello_post], comments = map nth_comment [0..<n], likes = []\<rparr>"

text \<open>
  Rows after the seed file of the friends service: the request \<open>fr-001\<close> of
  \<open>user-001\<close> to \<open>user-002\<close> is pending, and \<open>user-001\<close> and \<open>user-004\<close> are friends.
\<close>

definition seed_friend_store :: friend_store where
  "seed_friend_store =
     \<lparr>friend_requests =
        [\<lparr>request_ID = ''fr-001'', request_SenderID = ''user-001'', request_ReceiverID = ''user-002'',
          request_Status = ''pending'', request_CreatedAt = 0, request_UpdatedAt = 0,
          request_DeletedAt = None\<rparr>,
         \<lparr>request_ID = ''fr-003'', request_SenderID = ''user-004'', request_ReceiverID = ''user-001'',
          request_Status = ''accepted'', request_CreatedAt = 0, request_UpdatedAt = 0,
          request_DeletedAt = None\<rparr>],
      friendships =
        [\<lparr>friendship_ID = ''f-001'', friendship_UserID = ''user-001'', friendship_FriendID = ''user-004'',
          friendship_CreatedAt = 0, friendship_UpdatedAt = 0, friendship_DeletedAt = None\<rparr>,
         \<lparr>friendship_ID = ''f-002'', friendship_UserID = ''user-004'', friendship_FriendID = ''user-001'',
          friendship_CreatedAt = 0, friendship_UpdatedAt = 0, friendship_DeletedAt = None\<rparr>],
      blocked_users = []\<rparr>"

text \<open>
  Two pending requests between \<open>user-001\<close> and \<open>user-002\<close>, one in each direction, the
  one with the greater id stored first.
\<close>

definition crossed_store :: friend_store where
  "crossed_store =
     \<lparr>friend_requests =
        [\<lparr>request_ID = ''fr-009'', request_SenderID = ''user-001'', request_ReceiverID = ''user-002'',
          request_Status = ''pending'', request_CreatedAt = 0, request_UpdatedAt = 0,
          request_DeletedAt = None\<rparr>,
         \<lparr>request_ID = ''fr-001'', request_SenderID = ''user-002'', request_ReceiverID = ''user-001'',
          request_Status = ''pending'', request_CreatedAt = 1, request_UpdatedAt = 1,
          request_DeletedAt = None\<rparr>],
      friendships = [], blocked_users = []\<rparr>"







section \<open>The visibility resolver\<close>

lemma friend_loop_set: "friend_loop fs a = (a \<in> set fs)"
  by (induction fs) auto

lemma FindByID_private_post:
  "postRepo_FindByID (posts private_store) ''post2'' = Some private_post"
  by (simp add: postRepo_FindByID_def private_store_def private_post_def private_group_post_def
      post_live_def parse_media_def)

lemma FindByID_private_group_post:
  "postRepo_FindByID (posts private_store) ''post6'' = Some private_group_post"
  by (simp add: postRepo_FindByID_def private_store_def private_post_def private_group_post_def
      post_live_def parse_media_def)

text \<open>
  C1. \<open>isPostVisibleToUser\<close> is a function of the post, the viewer id and the friend
  ids (\<open>None\<close> for \<open>nil\<close>), and it answers visible exactly when the post is public, or
  the viewer is the author, or the post is private and the friend ids contain the
  author, or the post has a non-empty group id.
\<close>

theorem isPostVisibleToUser_decision:
  "isPostVisibleToUser p userID friendIDs \<longleftrightarrow>
     (post_Visibility p = ''public'' \<or>
      userID = post_AuthorID p \<or>
      (post_Visibility p = ''private'' \<and> (\<exists>fs. friendIDs = Some fs \<and> post_AuthorID p \<in> set fs)) \<or>
      post_GroupID p \<noteq> [])"
  by (cases friendIDs) (auto simp: isPostVisibleToUser_def friend_loop_set)

theorem isPostVisibleToUser_decision_witness:
  "isPostVisibleToUser private_post ''user2'' (Some [''user3'', ''user1'']) \<and>
   \<not> isPostVisibleToUser private_post ''user2'' (Some [''user3'']) \<and>
   \<not> isPostVisibleToUser private_post ''user2'' None \<and>
   isPostVisibleToUser private_post ''user1'' None \<and>
   isPostVisibleToUser private_group_post ''user2'' None"
  using isPostVisibleToUser_decision [of private_post "''user2''" "Some [''user3'', ''user1'']"]
        isPostVisibleToUser_decision [of private_post "''user2''" "Some [''user3'']"]
        isPostVisibleToUser_decision [of private_post "''user2''" None]
        isPostVisibleToUser_decision [of private_post "''user1''" None]
        isPostVisibleToUser_decision [of private_group_post "''user2''" None]
  by (simp add: private_post_def private_group_post_def)

section \<open>GetPost\<close>

lemma GetPost_found:
  assumes "postID \<noteq> []" and "postRepo_FindByID (posts s) postID = Some p"
  shows "GetPost s postID userID =
           (if isPostVisibleToUser p userID None
            then Inr (p, if userID \<noteq> [] then IsLiked s postID userID else False)
            else Inl (Status PermissionDenied ''you don't have permission to view this post''))"
  using assms by (simp add: GetPost_def)

lemma not_visible_private:
  assumes "post_Visibility p = ''private''" and "post_GroupID p = []"
  shows "isPostVisibleToUser p userID None \<longleftrightarrow> userID = post_AuthorID p"
  using assms by (simp add: isPostVisibleToUser_def)

text \<open>
  C2, as stated, fails: a private post that carries a group id is shown by \<open>GetPost\<close>
  to a viewer who is neither its author nor among the author's friends (here
  \<open>user3\<close> is the only friend of the author \<open>user1\<close>, and \<open>user2\<close> asks).
\<close>

theorem GetPost_private_group_post_shown:
  "postRepo_FindByID (posts private_store) ''post6'' = Some private_group_post \<and>
   post_Visibility private_group_post = ''private'' \<and>
   ''user2'' \<noteq> post_AuthorID private_group_post \<and>
   ''user2'' \<notin> set [''user3''] \<and>
   GetPost private_store ''post6'' ''user2'' = Inr (private_group_post, False)"
proof -
  have "likes private_store = []"
    by (simp add: private_store_def)
  moreover have "isPostVisibleToUser private_group_post ''user2'' None"
    by (simp add: isPostVisibleToUser_def private_group_post_def)
  moreover have "post_Visibility private_group_post = ''private''"
    and "''user2'' \<noteq> post_AuthorID private_group_post"
    by (simp_all add: private_group_post_def)
  ultimately show ?thesis
    using FindByID_private_group_post
    by (simp add: GetPost_def IsLiked_def likeRepo_FindByPostAndUser_def)
qed

text \<open>
  C2, amended: for every existing private post with an empty group id, a viewer who is
  neither the author nor in the author's friend list gets \<open>PermissionDenied\<close> from
  \<open>GetPost\<close>.
\<close>

theorem GetPost_private_denied:
  assumes "postID \<noteq> []"
    and "postRepo_FindByID (posts s) postID = Some p"
    and "post_Visibility p = ''private''"
    and "post_GroupID p = []"
    and "viewerID \<noteq> post_AuthorID p"
    and "viewerID \<notin> set authorFriendIDs"
  shows "GetPost s postID viewerID =
           Inl (Status PermissionDenied ''you don't have permission to view this post'')"
  using assms by (simp add: GetPost_found not_visible_private)

theorem GetPost_private_denied_witness:
  "GetPost private_store ''post2'' ''user2'' =
     Inl (Status PermissionDenied ''you don't have permission to view this post'')"
  using GetPost_private_denied [of "''post2''" private_store private_post "''user2''" "[''user3'']"]
        FindByID_private_post
  by (simp add: private_post_def)

text \<open>
  C9. \<open>GetPost\<close> passes no friend ids to the resolver. For an existing private post
  with an empty group id it succeeds exactly for the author; every other viewer gets
  \<open>PermissionDenied\<close>, also one whose friend ids contain the author and whom the
  resolver, given those ids, would let see the post.
\<close>

theorem GetPost_private_author_only:
  assumes "postID \<noteq> []"
    and "postRepo_FindByID (posts s) postID = Some p"
    and "post_Visibility p = ''private''"
    and "post_GroupID p = []"
  shows "((\<exists>r. GetPost s postID viewerID = Inr r) \<longleftrightarrow> viewerID = post_AuthorID p) \<and>
         (viewerID \<noteq> post_AuthorID p \<longrightarrow>
            GetPost s postID viewerID =
              Inl (Status PermissionDenied ''you don't have permission to view this post'')) \<and>
         (post_AuthorID p \<in> set friendIDs \<longrightarrow> isPostVisibleToUser p viewerID (Some friendIDs))"
  using assms by (auto simp: GetPost_found not_visible_private isPostVisibleToUser_def friend_loop_set)

theorem GetPost_private_author_only_witness:
  "(\<exists>r. GetPost private_store ''post2'' ''user1'' = Inr r) \<and>
   GetPost private_store ''post2'' ''user2'' =
     Inl (Status PermissionDenied ''you don't have permission to view this post'') \<and>
   isPostVisibleToUser private_post ''user2'' (Some [''user1''])"
  using GetPost_private_author_only [of "''post2''" private_store private_post "''user1''" "[''user1'']"]
        GetPost_private_author_only [of "''post2''" private_store private_post "''user2''" "[''user1'']"]
        FindByID_private_post
  by (simp add: private_post_def)

section \<open>Pagination\<close>

lemma int64_id: "- 9223372036854775808 \<le> x \<Longrightarrow> x < 9223372036854775808 \<Longrightarrow> int64 x = x"
  by (simp add: int64_def wrap_def)

lemma int32_id: "- 2147483648 \<le> x \<Longrightarrow> x < 2147483648 \<Longrightarrow> int32 x = x"
  by (simp add: int32_def wrap_def)

lemma div_bounds: "0 \<le> (a::int) \<Longrightarrow> 0 < b \<Longrightarrow> 0 \<le> a div b \<and> a div b \<le> a"
  by (metis div_pos_pos_trivial int_div_le_self leI nle_le pos_imp_zdiv_nonneg_iff)

lemma quo_nonneg:
  assumes "0 \<le> a" and "0 < b" and "a < 9223372036854775808"
  shows "quo a b = a div b"
proof -
  have "0 \<le> a div b \<and> a div b \<le> a"
    using assms by (simp add: div_bounds)
  then have "int64 (a div b) = a div b"
    using assms by (intro int64_id) auto
  moreover have "sgn a * sgn b * (\<bar>a\<bar> div \<bar>b\<bar>) = a div b"
    using assms by (cases "a = 0") (auto simp: sgn_if)
  ultimately show ?thesis
    by (simp add: quo_def)
qed

lemma ceiling_div:
  assumes "0 < (b::int)"
  shows "\<lceil>of_int a / of_int b :: real\<rceil> = (a + b - 1) div b"
proof -
  define q where "q = (a + b - 1) div b"
  define r where "r = (a + b - 1) mod b"
  have r: "0 \<le> r" "r < b"
    using assms by (simp_all add: r_def)
  have "a + b - 1 = b * q + r"
    by (simp add: q_def r_def)
  then have "- a = b * (- q) + (b - 1 - r)"
    by (simp add: algebra_simps)
  then have "(- a) div b = - q"
    using r int_div_pos_eq [of "- a" b "- q" "b - 1 - r"] by simp
  then show ?thesis
    by (simp add: ceiling_divide_eq_div q_def)
qed

lemma offset_exact:
  assumes "1 \<le> page" and "page \<le> 2147483647" and "1 \<le> limit" and "limit \<le> 100"
  shows "int64 (int64 (page - 1) * limit) = (page - 1) * limit"
proof -
  have a: "int64 (page - 1) = page - 1"
    using assms by (intro int64_id) auto
  have "(page - 1) * limit \<le> 2147483646 * 100"
    using assms by (intro mult_mono) auto
  moreover have "0 \<le> (page - 1) * limit"
    using assms by simp
  ultimately have "int64 ((page - 1) * limit) = (page - 1) * limit"
    by (intro int64_id) auto
  with a show ?thesis by simp
qed

lemma div_lt:
  assumes "0 < (l::int)" and "x < c * l"
  shows "x div l < c"
proof -
  have "x = l * (x div l) + x mod l"
    by simp
  moreover have "0 \<le> x mod l"
    using assms by simp
  ultimately have "l * (x div l) \<le> x"
    by linarith
  with assms(2) have "l * (x div l) < l * c"
    by (metis mult.commute order_le_less_trans)
  with assms(1) show ?thesis
    by (simp only: mult_less_cancel_left_pos)
qed

lemma total_pages_exact:
  assumes "0 \<le> count" and "count \<le> 2147483647" and "1 \<le> limit" and "limit \<le> 100"
  shows "int32 (quo (int64 (int64 (count + limit) - 1)) limit) = \<lceil>of_int count / of_int limit :: real\<rceil>"
proof -
  have a: "int64 (count + limit) = count + limit"
    using assms by (intro int64_id) auto
  have b: "int64 (count + limit - 1) = count + limit - 1"
    using assms by (intro int64_id) auto
  have c: "quo (count + limit - 1) limit = (count + limit - 1) div limit"
    using assms by (intro quo_nonneg) auto
  have "0 \<le> (count + limit - 1) div limit \<and> (count + limit - 1) div limit \<le> count + limit - 1"
    using assms by (intro div_bounds) auto
  moreover have "(count + limit - 1) div limit < count + 1"
  proof (rule div_lt)
    show "0 < limit" using assms by simp
    have "count * 1 \<le> count * limit"
      using assms by (intro mult_left_mono) auto
    then show "count + limit - 1 < (count + 1) * limit"
      by (simp add: algebra_simps)
  qed
  ultimately have "int32 ((count + limit - 1) div limit) = (count + limit - 1) div limit"
    using assms by (intro int32_id) auto
  then show ?thesis
    using assms a b c by (simp add: ceiling_div)
qed


lemma find_page_exact:
  assumes "1 \<le> page" and "page \<le> 2147483647" and "1 \<le> limit" and "limit \<le> 100"
  shows "find_page ord matches tbl page limit =
           (case parse_all (take (nat limit) (drop (nat ((page - 1) * limit))
                   (ord (filter (\<lambda>p. matches p \<and> post_live p) tbl)))) of
              None \<Rightarrow> None
            | Some ps \<Rightarrow> Some (ps, int (length (filter (\<lambda>p. matches p \<and> post_live p) tbl))))"
  by (simp add: find_page_def offset_limit_def offset_exact [OF assms] Let_def)

lemma GetPosts_branch:
  "GetPosts ord s userID authorID groupID visibility reqPage reqLimit friendIDs =
     (let page = (if reqPage < 1 then 1 else reqPage);
          limit = (if reqLimit < 1 \<or> reqLimit > 100 then 10 else reqLimit)
      in case find_page ord (\<lambda>p. if authorID \<noteq> [] then post_AuthorID p = authorID
                  else if groupID \<noteq> [] then post_GroupID p = groupID
                  else if userID = [] \<or> visibility = ''public'' then post_Visibility p = ''public''
                  else post_Visibility p = ''public'' \<or>
                       (post_Visibility p = ''private'' \<and>
                        post_AuthorID p \<in> set (case friendIDs of None \<Rightarrow> [] | Some fs \<Rightarrow> fs)))
              (posts s) page limit of
           None \<Rightarrow> Inl (Status Internal ''failed to get posts'')
         | Some (ps, count) \<Rightarrow>
             Inr (filter (\<lambda>p. isPostVisibleToUser p userID friendIDs) ps,
                  count,
                  int32 (quo (int64 (int64 (count + limit) - 1)) limit)))"
  by (simp add: GetPosts_def postRepo_FindByAuthor_def postRepo_FindByGroup_def
      postRepo_FindPublic_def postRepo_FindVisible_def Let_def)

lemma GetPosts_exact:
  assumes "1 \<le> page" and "page \<le> 2147483647" and "1 \<le> limit" and "limit \<le> 100"
    and "page = (if reqPage < 1 then 1 else reqPage)"
    and "limit = (if reqLimit < 1 \<or> 100 < reqLimit then 10 else reqLimit)"
    and "rows = selected_rows s userID authorID groupID visibility friendIDs"
    and "int (length rows) \<le> 2147483647"
  shows "GetPosts ord s userID authorID groupID visibility reqPage reqLimit friendIDs =
        (case parse_all (take (nat limit) (drop (nat ((page - 1) * limit))
                 (ord rows))) of
           None \<Rightarrow> Inl (Status Internal ''failed to get posts'')
         | Some ps \<Rightarrow>
             Inr (filter (\<lambda>p. isPostVisibleToUser p userID friendIDs) ps,
                  int (length rows),
                  \<lceil>of_int (int (length rows)) / of_int limit :: real\<rceil>))"
proof -
  have tp: "int32 (quo (int64 (int64 (int (length rows) + limit) - 1)) limit) =
            \<lceil>of_int (int (length rows)) / of_int limit :: real\<rceil>"
    using assms(3,4,8) by (intro total_pages_exact) auto
  have "GetPosts ord s userID authorID groupID visibility reqPage reqLimit friendIDs =
     (case find_page ord (\<lambda>p. if authorID \<noteq> [] then post_AuthorID p = authorID
                  else if groupID \<noteq> [] then post_GroupID p = groupID
                  else if userID = [] \<or> visibility = ''public'' then post_Visibility p = ''public''
                  else post_Visibility p = ''public'' \<or>
                       (post_Visibility p = ''private'' \<and>
                        post_AuthorID p \<in> set (case friendIDs of None \<Rightarrow> [] | Some fs \<Rightarrow> fs)))
              (posts s) page limit of
           None \<Rightarrow> Inl (Status Internal ''failed to get posts'')
         | Some (ps, count) \<Rightarrow>
             Inr (filter (\<lambda>p. isPostVisibleToUser p userID friendIDs) ps,
                  count,
                  int32 (quo (int64 (int64 (count + limit) - 1)) limit)))"
    unfolding GetPosts_branch Let_def assms(5,6) ..
  also have "\<dots> = (case parse_all (take (nat limit) (drop (nat ((page - 1) * limit))
                 (ord rows))) of
           None \<Rightarrow> Inl (Status Internal ''failed to get posts'')
         | Some ps \<Rightarrow>
             Inr (filter (\<lambda>p. isPostVisibleToUser p userID friendIDs) ps,
                  int (length rows),
                  int32 (quo (int64 (int64 (int (length rows) + limit) - 1)) limit)))"
    unfolding find_page_exact [OF assms(1-4)] assms(7) selected_rows_def
    by (simp split: option.split)
  finally show ?thesis
    unfolding tp .
qed

lemma GetComments_exact:
  assumes "1 \<le> page" and "page \<le> 2147483647" and "1 \<le> limit" and "limit \<le> 100"
    and "page = (if reqPage < 1 then 1 else reqPage)"
    and "limit = (if reqLimit < 1 \<or> 100 < reqLimit then 10 else reqLimit)"
    and "postID \<noteq> []"
    and "crows = comments_of s postID"
    and "int (length crows) \<le> 2147483647"
  shows "GetComments cord s postID reqPage reqLimit =
        Inr (take (nat limit) (drop (nat ((page - 1) * limit))
               (cord crows)),
             int (length crows),
             \<lceil>of_int (int (length crows)) / of_int limit :: real\<rceil>)"
proof -
  have tp: "int32 (quo (int64 (int64 (int (length crows) + limit) - 1)) limit) =
            \<lceil>of_int (int (length crows)) / of_int limit :: real\<rceil>"
    using assms(3,4,9) by (intro total_pages_exact) auto
  have off: "int64 (int64 (page - 1) * limit) = (page - 1) * limit"
    using assms(1-4) by (rule offset_exact)
  have "GetComments cord s postID reqPage reqLimit =
          (case commentRepo_FindByPost cord (comments s) postID page limit of
             (cs, count) \<Rightarrow> Inr (cs, count, int32 (quo (int64 (int64 (count + limit) - 1)) limit)))"
    unfolding GetComments_def Let_def assms(5,6) using assms(7) by simp
  also have "\<dots> = Inr (take (nat limit) (drop (nat ((page - 1) * limit))
               (cord crows)),
             int (length crows),
             int32 (quo (int64 (int64 (int (length crows) + limit) - 1)) limit))"
    unfolding commentRepo_FindByPost_def Let_def off offset_limit_def assms(8) comments_of_def
    by simp
  finally show ?thesis
    unfolding tp .
qed

lemma comments_of_comment_store:
  "comments_of (comment_store n) ''post1'' = map nth_comment [0..<n]"
  by (simp add: comments_of_def comment_store_def nth_comment_def comment_live_def filter_map comp_def)


lemma count_list_sort_key: "count_list (sort_key created rows) r = count_list rows r"
  by (simp add: count_list_eq_length_filter filter_sort)

lemma newest_first_desc: "created_at_desc created rows (newest_first created rows)"
proof -
  have "sorted_wrt (\<lambda>x y. created y \<le> created x) (rev (sort_key created rows))"
    using sorted_sort_key [of created rows] by (simp add: sorted_wrt_rev sorted_map)
  then show ?thesis
    by (simp add: created_at_desc_def newest_first_def count_list_sort_key)
qed

lemma same_rows_length:
  assumes "\<forall>r \<in> set answer \<union> set rows. count_list answer r = count_list rows r"
  shows "length answer = length rows"
proof -
  have "length answer = sum (count_list answer) (set answer \<union> set rows)"
    by (rule sum_count_set [symmetric]) auto
  also have "\<dots> = sum (count_list rows) (set answer \<union> set rows)"
    using assms by (intro sum.cong) auto
  also have "\<dots> = length rows"
    by (rule sum_count_set) auto
  finally show ?thesis .
qed

lemma created_at_desc_pair:
  assumes "created_at_desc created [a, b] answer" and "created a < created b"
  shows "answer = [b, a]"
proof -
  from assms(1) have m: "\<forall>r \<in> set answer \<union> set [a, b]. count_list answer r = count_list [a, b] r"
    and s: "sorted_wrt (\<lambda>x y. created y \<le> created x) answer"
    unfolding created_at_desc_def by blast+
  from m have "length answer = length [a, b]"
    by (rule same_rows_length)
  then have "length answer = 2"
    by simp
  then obtain x y where xy: "answer = [x, y]"
    by (cases answer; cases "tl answer") auto
  from assms(2) have ab: "a \<noteq> b" by auto
  from m have "count_list answer a = count_list [a, b] a"
    and "count_list answer b = count_list [a, b] b"
    by simp_all
  with ab xy have "(x = a \<and> y = b) \<or> (x = b \<and> y = a)"
    by (auto split: if_splits)
  with s xy assms(2) show ?thesis by auto
qed

text \<open>
  C3, amended. In every call of \<open>GetPosts\<close> or \<open>GetComments\<close> whose requested page is at
  most 2147483647 (the request carries it as a 32-bit integer) and whose total count is
  at most 2147483647: a page below 1 is replaced by 1, a limit outside 1..100 by 10,
  the rows are read at offset \<open>(page - 1) * limit\<close> with that limit, and the total pages
  are the ceiling of \<open>total_count / limit\<close>. The rows are read from the answer of the
  database, which holds the selected rows with the newest first; the statement holds
  whatever the order of rows with the same \<open>created_at\<close> in that answer is.
  (\<open>GetPosts\<close> answers \<open>Internal\<close> when the media text of a row of the page does not
  parse; \<open>GetComments\<close> with an empty post id answers \<open>InvalidArgument\<close> before anything
  else.)
\<close>

theorem pagination:
  fixes reqPage reqLimit :: int
  assumes "page = (if reqPage < 1 then 1 else reqPage)"
    and "limit = (if reqLimit < 1 \<or> 100 < reqLimit then 10 else reqLimit)"
    and "reqPage \<le> 2147483647"
  shows
    "(rows = selected_rows s userID authorID groupID visibility friendIDs \<longrightarrow>
      int (length rows) \<le> 2147483647 \<longrightarrow>
      created_at_desc post_CreatedAt rows (ord rows) \<longrightarrow>
      GetPosts ord s userID authorID groupID visibility reqPage reqLimit friendIDs =
        (case parse_all (take (nat limit) (drop (nat ((page - 1) * limit)) (ord rows))) of
           None \<Rightarrow> Inl (Status Internal ''failed to get posts'')
         | Some ps \<Rightarrow>
             Inr (filter (\<lambda>p. isPostVisibleToUser p userID friendIDs) ps,
                  int (length rows),
                  \<lceil>of_int (int (length rows)) / of_int limit :: real\<rceil>))) \<and>
     (postID \<noteq> [] \<longrightarrow>
      crows = comments_of s postID \<longrightarrow>
      int (length crows) \<le> 2147483647 \<longrightarrow>
      created_at_desc comment_CreatedAt crows (cord crows) \<longrightarrow>
      GetComments cord s postID reqPage reqLimit =
        Inr (take (nat limit) (drop (nat ((page - 1) * limit)) (cord crows)),
             int (length crows),
             \<lceil>of_int (int (length crows)) / of_int limit :: real\<rceil>))"
proof -
  have p: "1 \<le> page" "page \<le> 2147483647"
    using assms by auto
  have l: "1 \<le> limit" "limit \<le> 100"
    using assms by auto
  show ?thesis
    using GetPosts_exact [OF p l assms(1,2), of rows s userID authorID groupID visibility friendIDs ord]
      GetComments_exact [OF p l assms(1,2), of postID crows s cord]
    by blast
qed

lemma GetComments_comment_store:
  "GetComments cord (comment_store n) ''post1'' reqPage reqLimit =
     (let page = (if reqPage < 1 then 1 else reqPage);
          limit = (if reqLimit < 1 \<or> 100 < reqLimit then 10 else reqLimit)
      in Inr (offset_limit (int64 (int64 (page - 1) * limit)) limit
                (cord (map nth_comment [0..<n])),
              int n,
              int32 (quo (int64 (int64 (int n + limit) - 1)) limit)))"
proof -
  have "filter (\<lambda>c. comment_PostID c = ''post1'' \<and> comment_live c) (map nth_comment [0..<n]) =
        map nth_comment [0..<n]"
    by (simp add: nth_comment_def comment_live_def filter_map comp_def)
  then show ?thesis
    by (simp add: GetComments_def commentRepo_FindByPost_def Let_def comment_store_def)
qed

text \<open>
  C3, as stated, fails where Go's integers wrap. With 2147483648 comments and limit 1 the
  total pages, narrowed by \<open>int32(...)\<close>, come back negative. With page 4611686018427387904 and limit
  100 the offset \<open>(page - 1) * limit\<close> wraps to \<open>-100\<close> and the first rows are read, where
  the offset of the claim is far behind the last row. The order of the answer plays no
  part: the first example looks at the counts only, the second has a single comment.
\<close>

theorem pagination_overflow:
  "map_sum id snd (GetComments (newest_first comment_CreatedAt) (comment_store 2147483648) ''post1'' 1 1) =
     Inr (2147483648, - 2147483648) \<and>
   \<lceil>2147483648 / 1 :: real\<rceil> = 2147483648 \<and>
   GetComments (newest_first comment_CreatedAt) (comment_store 1) ''post1'' 4611686018427387904 100 =
     Inr ([nth_comment 0], 1, 1) \<and>
   take 100 (drop (nat ((4611686018427387904 - 1) * 100)) [nth_comment 0]) = []"
proof -
  have a: "int32 (quo (int64 (int64 (2147483648 + 1) - 1)) 1) = - 2147483648"
    by (simp add: int32_def int64_def quo_def wrap_def)
  have b: "int64 (int64 (4611686018427387904 - 1) * 100) = - 100"
    by (simp add: int64_def wrap_def)
  have c: "int32 (quo (int64 (int64 (1 + 100) - 1)) 100) = 1"
    by (simp add: int32_def int64_def quo_def wrap_def)
  have d: "newest_first comment_CreatedAt (map nth_comment [0..<1]) = [nth_comment 0]"
    by (simp add: newest_first_def)
  show ?thesis
    using a b c d by (simp add: GetComments_comment_store offset_limit_def)
qed


lemma length_comments_of_comment_store:
  "int (length (comments_of (comment_store n) ''post1'')) = int n"
  by (simp add: comments_of_comment_store)

lemma selected_rows_private_store:
  "selected_rows private_store ''user2'' ''user1'' [] [] None = [private_post, private_group_post]"
  by (simp add: selected_rows_def private_store_def private_post_def private_group_post_def post_live_def)

lemma answer_private_store:
  assumes "created_at_desc post_CreatedAt [private_post, private_group_post] answer"
  shows "answer = [private_group_post, private_post]"
  using assms by (rule created_at_desc_pair) (simp add: private_post_def private_group_post_def)

lemma page_private_store:
  "parse_all (take 10 (drop 0 [private_group_post, private_post])) =
     Some [private_group_post, private_post]"
  by (simp add: private_post_def private_group_post_def parse_media_def)

lemma visible_private_store:
  "filter (\<lambda>p. isPostVisibleToUser p ''user2'' None) [private_group_post, private_post] =
     [private_group_post]"
  by (simp add: isPostVisibleToUser_def private_post_def private_group_post_def)

text \<open>
  The examples of the claim: 25 rows at limit 10 give 3 pages and 20 rows give 2; a limit
  of 0 counts as 10; a limit of 100 is kept. The database of the examples answers in the
  order \<open>newest_first\<close>.
\<close>

theorem pagination_witness:
  "map_sum id snd (GetComments (newest_first comment_CreatedAt) (comment_store 25) ''post1'' 1 10) = Inr (25, 3) \<and>
   map_sum id snd (GetComments (newest_first comment_CreatedAt) (comment_store 20) ''post1'' 1 10) = Inr (20, 2) \<and>
   map_sum id snd (GetComments (newest_first comment_CreatedAt) (comment_store 25) ''post1'' 0 0) = Inr (25, 3) \<and>
   map_sum id snd (GetComments (newest_first comment_CreatedAt) (comment_store 250) ''post1'' 1 100) = Inr (250, 3) \<and>
   GetPosts (newest_first post_CreatedAt) private_store ''user2'' ''user1'' [] [] 0 0 None =
     Inr ([private_group_post], 2, 1)"
proof -
  have a: "map_sum id snd (GetComments (newest_first comment_CreatedAt) (comment_store 25) ''post1'' 1 10) = Inr (25, 3)"
    using pagination [where reqPage = 1 and reqLimit = 10 and page = 1 and limit = 10
        and postID = "''post1''" and s = "comment_store 25"
        and crows = "comments_of (comment_store 25) ''post1''"
        and cord = "newest_first comment_CreatedAt"]
      length_comments_of_comment_store [of 25]
      newest_first_desc [of comment_CreatedAt "comments_of (comment_store 25) ''post1''"]
    by simp
  have b: "map_sum id snd (GetComments (newest_first comment_CreatedAt) (comment_store 20) ''post1'' 1 10) = Inr (20, 2)"
    using pagination [where reqPage = 1 and reqLimit = 10 and page = 1 and limit = 10
        and postID = "''post1''" and s = "comment_store 20"
        and crows = "comments_of (comment_store 20) ''post1''"
        and cord = "newest_first comment_CreatedAt"]
      length_comments_of_comment_store [of 20]
      newest_first_desc [of comment_CreatedAt "comments_of (comment_store 20) ''post1''"]
    by simp
  have c: "map_sum id snd (GetComments (newest_first comment_CreatedAt) (comment_store 25) ''post1'' 0 0) = Inr (25, 3)"
    using pagination [where reqPage = 0 and reqLimit = 0 and page = 1 and limit = 10
        and postID = "''post1''" and s = "comment_store 25"
        and crows = "comments_of (comment_store 25) ''post1''"
        and cord = "newest_first comment_CreatedAt"]
      length_comments_of_comment_store [of 25]
      newest_first_desc [of comment_CreatedAt "comments_of (comment_store 25) ''post1''"]
    by simp
  have d: "map_sum id snd (GetComments (newest_first comment_CreatedAt) (comment_store 250) ''post1'' 1 100) = Inr (250, 3)"
    using pagination [where reqPage = 1 and reqLimit = 100 and page = 1 and limit = 100
        and postID = "''post1''" and s = "comment_store 250"
        and crows = "comments_of (comment_store 250) ''post1''"
        and cord = "newest_first comment_CreatedAt"]
      length_comments_of_comment_store [of 250]
      newest_first_desc [of comment_CreatedAt "comments_of (comment_store 250) ''post1''"]
    by simp
  have o: "created_at_desc post_CreatedAt [private_post, private_group_post]
             (newest_first post_CreatedAt [private_post, private_group_post])"
    by (rule newest_first_desc)
  have e: "GetPosts (newest_first post_CreatedAt) private_store ''user2'' ''user1'' [] [] 0 0 None =
             Inr ([private_group_post], 2, 1)"
    using pagination [where reqPage = 0 and reqLimit = 0 and page = 1 and limit = 10
        and s = private_store and userID = "''user2''" and authorID = "''user1''"
        and groupID = "[]" and visibility = "[]" and friendIDs = None
        and rows = "[private_post, private_group_post]"
        and ord = "newest_first post_CreatedAt"]
      selected_rows_private_store o answer_private_store [OF o] page_private_store
      visible_private_store
    by (simp add: ceiling_eq_iff)
  from a b c d e show ?thesis by blast
qed

section \<open>GetPosts: count and visibility\<close>

lemma GetPosts_private_store:
  assumes "created_at_desc post_CreatedAt [private_post, private_group_post]
             (ord [private_post, private_group_post])"
  shows "GetPosts ord private_store ''user2'' ''user1'' [] [] 1 10 None =
           Inr ([private_group_post], 2, 1)"
  using GetPosts_exact [where reqPage = 1 and reqLimit = 10 and page = 1 and limit = 10
        and s = private_store and userID = "''user2''" and authorID = "''user1''"
        and groupID = "[]" and visibility = "[]" and friendIDs = None
        and rows = "[private_post, private_group_post]" and ord = ord]
      selected_rows_private_store answer_private_store [OF assms] page_private_store
      visible_private_store
  by (simp add: ceiling_eq_iff)

lemma GetPosts_unfolded:
  assumes "page = (if reqPage < 1 then 1 else reqPage)"
    and "limit = (if reqLimit < 1 \<or> 100 < reqLimit then 10 else reqLimit)"
    and "rows = selected_rows s userID authorID groupID visibility friendIDs"
  shows "GetPosts ord s userID authorID groupID visibility reqPage reqLimit friendIDs =
           (case parse_all (offset_limit (int64 (int64 (page - 1) * limit)) limit
                    (ord rows)) of
              None \<Rightarrow> Inl (Status Internal ''failed to get posts'')
            | Some ps \<Rightarrow>
                Inr (filter (\<lambda>p. isPostVisibleToUser p userID friendIDs) ps,
                     int (length rows),
                     int32 (quo (int64 (int64 (int (length rows) + limit) - 1)) limit)))"
proof -
  define fetched where "fetched = parse_all (offset_limit (int64 (int64 (page - 1) * limit)) limit
                    (ord rows))"
  show ?thesis
    unfolding GetPosts_branch Let_def find_page_def assms(1,2) [symmetric]
      selected_rows_def [symmetric] assms(3) [symmetric] fetched_def [symmetric]
    by (cases fetched) simp_all
qed

lemma GetPosts_success:
  assumes "GetPosts ord s userID authorID groupID visibility reqPage reqLimit friendIDs =
             Inr (visible, count, totalPages)"
    and "page = (if reqPage < 1 then 1 else reqPage)"
    and "limit = (if reqLimit < 1 \<or> 100 < reqLimit then 10 else reqLimit)"
    and "rows = selected_rows s userID authorID groupID visibility friendIDs"
  shows "count = int (length rows) \<and>
         totalPages = int32 (quo (int64 (int64 (count + limit) - 1)) limit) \<and>
         (\<exists>ps. parse_all (offset_limit (int64 (int64 (page - 1) * limit)) limit
                 (ord rows)) = Some ps \<and>
              visible = filter (\<lambda>p. isPostVisibleToUser p userID friendIDs) ps)"
  using assms(1) unfolding GetPosts_unfolded [OF assms(2,3,4)]
  by (cases "parse_all (offset_limit (int64 (int64 (page - 1) * limit)) limit
                 (ord rows))") auto

text \<open>
  C10. In a successful \<open>GetPosts\<close> the total count is the number of live rows that
  the selected branch matches, the total pages are computed from that count, and the
  returned list is the fetched page filtered by the visibility check. The page is
  fetched from the answer of the database, \<open>ord rows\<close>: the selected rows with the newest
  first, in whatever order the database puts rows with the same \<open>created_at\<close>. So the
  list can be shorter than both the limit and the count, and the count can include posts
  the viewer may not see: \<open>user2\<close>, listing the posts of author \<open>user1\<close>, gets one post
  and a count of 2, the second being the private post of \<open>user1\<close>.
\<close>

theorem GetPosts_count_before_visibility:
  "(GetPosts ord s userID authorID groupID visibility reqPage reqLimit friendIDs =
      Inr (visible, count, totalPages) \<longrightarrow>
    page = (if reqPage < 1 then 1 else reqPage) \<longrightarrow>
    limit = (if reqLimit < 1 \<or> 100 < reqLimit then 10 else reqLimit) \<longrightarrow>
    rows = selected_rows s userID authorID groupID visibility friendIDs \<longrightarrow>
    created_at_desc post_CreatedAt rows (ord rows) \<longrightarrow>
      count = int (length rows) \<and>
      totalPages = int32 (quo (int64 (int64 (count + limit) - 1)) limit) \<and>
      (\<exists>ps. parse_all (offset_limit (int64 (int64 (page - 1) * limit)) limit (ord rows)) = Some ps \<and>
            visible = filter (\<lambda>p. isPostVisibleToUser p userID friendIDs) ps)) \<and>
   ((created_at_desc post_CreatedAt (selected_rows private_store ''user2'' ''user1'' [] [] None)
       (ord (selected_rows private_store ''user2'' ''user1'' [] [] None)) \<longrightarrow>
     GetPosts ord private_store ''user2'' ''user1'' [] [] 1 10 None = Inr ([private_group_post], 2, 1)) \<and>
    int (length [private_group_post]) < min 10 2 \<and>
    private_post \<in> set (selected_rows private_store ''user2'' ''user1'' [] [] None) \<and>
    post_AuthorID private_post = ''user1'' \<and>
    post_Visibility private_post = ''private'' \<and>
    \<not> isPostVisibleToUser private_post ''user2'' None)"
proof -
  have "\<not> isPostVisibleToUser private_post ''user2'' None"
    and "post_AuthorID private_post = ''user1''"
    and "post_Visibility private_post = ''private''"
    by (simp_all add: isPostVisibleToUser_def private_post_def)
  then show ?thesis
    using GetPosts_success [of ord s userID authorID groupID visibility reqPage reqLimit friendIDs
        visible count totalPages page limit rows]
      GetPosts_private_store [of ord] selected_rows_private_store
    by simp
qed

theorem GetPosts_count_before_visibility_witness:
  "int (length (selected_rows private_store ''user2'' ''user1'' [] [] None)) = 2 \<and>
   GetPosts (newest_first post_CreatedAt) private_store ''user2'' ''user1'' [] [] 1 10 None =
     Inr ([private_group_post], 2, 1) \<and>
   (\<exists>ps. parse_all (offset_limit (int64 (int64 (1 - 1) * 10)) 10
            (newest_first post_CreatedAt (selected_rows private_store ''user2'' ''user1'' [] [] None))) = Some ps \<and>
         [private_group_post] = filter (\<lambda>p. isPostVisibleToUser p ''user2'' None) ps)"
proof -
  have o: "created_at_desc post_CreatedAt (selected_rows private_store ''user2'' ''user1'' [] [] None)
             (newest_first post_CreatedAt (selected_rows private_store ''user2'' ''user1'' [] [] None))"
    by (rule newest_first_desc)
  have g: "GetPosts (newest_first post_CreatedAt) private_store ''user2'' ''user1'' [] [] 1 10 None =
             Inr ([private_group_post], 2, 1)"
    using GetPosts_count_before_visibility [of "newest_first post_CreatedAt" private_store
        "''user2''" "''user1''" "[]" "[]" 1 10 None "[private_group_post]" 2 1 1 10
        "selected_rows private_store ''user2'' ''user1'' [] [] None"] o
    by blast
  show ?thesis
    using GetPosts_count_before_visibility [of "newest_first post_CreatedAt" private_store
        "''user2''" "''user1''" "[]" "[]" 1 10 None "[private_group_post]" 2 1 1 10
        "selected_rows private_store ''user2'' ''user1'' [] [] None"] o g
    by simp
qed

section \<open>UpdatePost\<close>

lemma parse_media_fields:
  assumes "parse_media r = Some p"
  shows "post_ID p = post_ID r" and "post_AuthorID p = post_AuthorID r"
    and "post_AuthorName p = post_AuthorName r" and "post_AuthorAvatar p = post_AuthorAvatar r"
    and "post_Content p = post_Content r" and "post_Visibility p = post_Visibility r"
    and "post_GroupID p = post_GroupID r" and "post_GroupName p = post_GroupName r"
    and "post_Media p = post_Media r" and "post_LikesCount p = post_LikesCount r"
    and "post_CommentsCount p = post_CommentsCount r" and "post_CreatedAt p = post_CreatedAt r"
    and "post_UpdatedAt p = post_UpdatedAt r" and "post_DeletedAt p = post_DeletedAt r"
    and "post_Media r \<noteq> MediaInvalid"
  using assms by (auto simp: parse_media_def split: media_column.splits)

lemma find_Some_props: "find P xs = Some x \<Longrightarrow> P x \<and> x \<in> set xs"
  by (induction xs) (auto split: if_splits)

lemma find_map_replace:
  assumes "find P xs = Some x" and "P y"
  shows "find P (map (\<lambda>r. if P r then y else r) xs) = Some y"
  using assms by (induction xs) (auto split: if_splits)

lemma FindByID_row:
  assumes "postRepo_FindByID tbl pid = Some p"
  obtains r where "find (\<lambda>r. post_ID r = pid \<and> post_live r) tbl = Some r"
    and "parse_media r = Some p" and "post_ID r = pid" and "post_live r" and "r \<in> set tbl"
proof -
  from assms obtain r where r: "find (\<lambda>r. post_ID r = pid \<and> post_live r) tbl = Some r"
    and p: "parse_media r = Some p"
    by (auto simp: postRepo_FindByID_def split: option.splits)
  from find_Some_props [OF r] have "post_ID r = pid" "post_live r" "r \<in> set tbl"
    by auto
  with r p that show thesis by blast
qed

lemma save_post_live:
  assumes "find (\<lambda>r. post_ID r = post_ID q \<and> post_live r) tbl = Some r"
  shows "save_post q tbl =
           map (\<lambda>r. if post_ID r = post_ID q \<and> post_live r then q\<lparr>post_MediaArray := None\<rparr> else r) tbl"
proof -
  from find_Some_props [OF assms] have "\<exists>r\<in>set tbl. post_ID r = post_ID q \<and> post_live r"
    by blast
  then show ?thesis
    by (simp add: save_post_def Let_def)
qed


lemma UpdatePost_valid:
  assumes "postID \<noteq> []" and "userID \<noteq> []" and "content \<noteq> []"
    and "visibility = [] \<or> visibility = ''public'' \<or> visibility = ''private''"
  shows "UpdatePost now s postID userID content visibility media =
     (case postRepo_FindByID (posts s) postID of
             None \<Rightarrow> (Inl (Status NotFound ''post not found''), s)
           | Some p \<Rightarrow>
               if post_AuthorID p \<noteq> userID
               then (Inl (Status PermissionDenied ''you don't have permission to update this post''), s)
               else
                 let p1 = p\<lparr>post_Content := content\<rparr>;
                     p2 = (if visibility \<noteq> [] then p1\<lparr>post_Visibility := visibility\<rparr> else p1);
                     p3 = (case media of None \<Rightarrow> p2 | Some m \<Rightarrow> p2\<lparr>post_MediaArray := Some m\<rparr>);
                     p4 = p3\<lparr>post_UpdatedAt := now\<rparr>
                 in (case postRepo_Update now p4 (posts s) of
                       None \<Rightarrow> (Inl (Status Internal ''failed to update post''), s)
                     | Some (p5, tbl) \<Rightarrow> (Inr p5, s\<lparr>posts := tbl\<rparr>)))"
  using assms unfolding UpdatePost_def by auto

lemma UpdatePost_success:
  assumes "postID \<noteq> []" and "userID \<noteq> []" and "content \<noteq> []"
    and "visibility = [] \<or> visibility = ''public'' \<or> visibility = ''private''"
    and "postRepo_FindByID (posts s) postID = Some p"
    and "post_AuthorID p = userID"
  shows "\<exists>q. UpdatePost now s postID userID content visibility media =
           (Inr q, s\<lparr>posts := map (\<lambda>r. if post_ID r = postID \<and> post_live r
                                        then q\<lparr>post_MediaArray := None\<rparr> else r) (posts s)\<rparr>) \<and>
         same_identity p q \<and> post_DeletedAt q = None \<and>
         post_Content q = content \<and> post_UpdatedAt q = now \<and>
         post_Visibility q = (if visibility = [] then post_Visibility p else visibility) \<and>
         post_MediaArray q = (case media of None \<Rightarrow> post_MediaArray p | Some m \<Rightarrow> Some m) \<and>
         (media = None \<longrightarrow> post_Media q = post_Media p) \<and>
         post_Media q \<noteq> MediaInvalid"
proof -
  obtain r where r: "find (\<lambda>r. post_ID r = postID \<and> post_live r) (posts s) = Some r"
    and pr: "parse_media r = Some p" and "post_ID r = postID" and "post_live r"
    using FindByID_row [OF assms(5)] by blast
  then have id: "post_ID p = postID" and live: "post_DeletedAt p = None"
    and nin: "post_Media p \<noteq> MediaInvalid"
    using parse_media_fields [OF pr] by (simp_all add: post_live_def)
  have arr: "post_MediaArray p = (case post_Media p of MediaJSON xs \<Rightarrow> Some xs | _ \<Rightarrow> None)"
    using pr by (auto simp: parse_media_def split: media_column.splits)
  define p4 where "p4 = (case media of None \<Rightarrow> (if visibility \<noteq> [] then p\<lparr>post_Content := content, post_Visibility := visibility\<rparr> else p\<lparr>post_Content := content\<rparr>)
                 | Some m \<Rightarrow> (if visibility \<noteq> [] then p\<lparr>post_Content := content, post_Visibility := visibility\<rparr> else p\<lparr>post_Content := content\<rparr>)\<lparr>post_MediaArray := Some m\<rparr>)\<lparr>post_UpdatedAt := now\<rparr>"
  define q where "q = (case post_MediaArray p4 of
                  Some (x # xs) \<Rightarrow> p4\<lparr>post_Media := MediaJSON (x # xs)\<rparr>
                | _ \<Rightarrow> p4)\<lparr>post_UpdatedAt := now\<rparr>"
  have qid: "post_ID q = postID"
    using id by (auto simp: q_def p4_def split: option.splits list.splits)
  have upd: "postRepo_Update now p4 (posts s) = Some (q, save_post q (posts s))"
    by (simp add: postRepo_Update_def Let_def q_def)
  have sv: "save_post q (posts s) =
      map (\<lambda>r. if post_ID r = postID \<and> post_live r then q\<lparr>post_MediaArray := None\<rparr> else r) (posts s)"
    using save_post_live [of q "posts s" r] r qid by simp
  have "UpdatePost now s postID userID content visibility media =
          (Inr q, s\<lparr>posts := save_post q (posts s)\<rparr>)"
    unfolding UpdatePost_valid [OF assms(1-4)] using assms(5,6) upd
    by (simp add: Let_def p4_def split: option.splits)
  moreover have "same_identity p q" "post_DeletedAt q = None" "post_Content q = content"
    "post_UpdatedAt q = now"
    "post_Visibility q = (if visibility = [] then post_Visibility p else visibility)"
    "post_MediaArray q = (case media of None \<Rightarrow> post_MediaArray p | Some m \<Rightarrow> Some m)"
    using live
    by (auto simp: same_identity_def q_def p4_def split: option.splits list.splits)
  moreover have "media = None \<longrightarrow> post_Media q = post_Media p"
    using arr by (auto simp: q_def p4_def split: option.splits list.splits media_column.splits)
  moreover have "post_Media q \<noteq> MediaInvalid"
    using nin by (auto simp: q_def p4_def split: option.splits list.splits)
  ultimately show ?thesis
    unfolding sv by blast
qed


lemma FindByID_after_update:
  assumes "postRepo_FindByID tbl pid = Some p"
    and "post_ID q = pid" and "post_DeletedAt q = None" and "post_Media q \<noteq> MediaInvalid"
  shows "postRepo_FindByID
            (map (\<lambda>r. if post_ID r = pid \<and> post_live r then q\<lparr>post_MediaArray := None\<rparr> else r) tbl) pid =
           Some (q\<lparr>post_MediaArray := (case post_Media q of MediaJSON xs \<Rightarrow> Some xs | _ \<Rightarrow> None)\<rparr>)"
proof -
  obtain r where r: "find (\<lambda>r. post_ID r = pid \<and> post_live r) tbl = Some r"
    using FindByID_row [OF assms(1)] by blast
  have "post_ID (q\<lparr>post_MediaArray := None\<rparr>) = pid \<and> post_live (q\<lparr>post_MediaArray := None\<rparr>)"
    using assms by (simp add: post_live_def)
  from find_map_replace [of "\<lambda>r. post_ID r = pid \<and> post_live r", OF r this]
  show ?thesis
    using assms(4) by (cases "post_Media q") (simp_all add: postRepo_FindByID_def parse_media_def)
qed

text \<open>
  C8, amended: for arguments that pass the validation (non-empty post id, user id and
  content; visibility empty, \<open>public\<close> or \<open>private\<close>). \<open>UpdatePost\<close> fails with
  \<open>NotFound\<close> when the post id does not resolve and with \<open>PermissionDenied\<close> when the
  user is not the author, and the store is then unchanged. On success only rows of that
  id are rewritten; in the post returned and in the post as stored the content is the new
  one, \<open>updated_at\<close> is the clock, the visibility is the new one if one was given and
  the old one otherwise, the media are the old ones when the argument is \<open>nil\<close>, and the
  id, the author id, name and avatar, the group id and name, both counters and
  \<open>created_at\<close> are the old ones.
\<close>

theorem UpdatePost_frame:
  assumes "postID \<noteq> []" and "userID \<noteq> []" and "content \<noteq> []"
    and "visibility = [] \<or> visibility = ''public'' \<or> visibility = ''private''"
  shows
    "(postRepo_FindByID (posts s) postID = None \<longrightarrow>
        UpdatePost now s postID userID content visibility media =
          (Inl (Status NotFound ''post not found''), s)) \<and>
     (postRepo_FindByID (posts s) postID = Some p \<longrightarrow> post_AuthorID p \<noteq> userID \<longrightarrow>
        UpdatePost now s postID userID content visibility media =
          (Inl (Status PermissionDenied ''you don't have permission to update this post''), s)) \<and>
     (postRepo_FindByID (posts s) postID = Some p \<longrightarrow> post_AuthorID p = userID \<longrightarrow>
        (\<exists>q stored.
           UpdatePost now s postID userID content visibility media =
             (Inr q, s\<lparr>posts := map (\<lambda>r. if post_ID r = postID \<and> post_live r
                                          then q\<lparr>post_MediaArray := None\<rparr> else r) (posts s)\<rparr>) \<and>
           postRepo_FindByID (posts (snd (UpdatePost now s postID userID content visibility media))) postID =
             Some stored \<and>
           same_identity p q \<and> same_identity p stored \<and>
           post_Content q = content \<and> post_Content stored = content \<and>
           post_UpdatedAt q = now \<and> post_UpdatedAt stored = now \<and>
           post_Visibility q = (if visibility = [] then post_Visibility p else visibility) \<and>
           post_Visibility stored = post_Visibility q \<and>
           post_MediaArray q = (case media of None \<Rightarrow> post_MediaArray p | Some m \<Rightarrow> Some m) \<and>
           (media = None \<longrightarrow> post_Media stored = post_Media p \<and>
                             post_MediaArray stored = post_MediaArray p)))"
proof (intro conjI impI)
  assume "postRepo_FindByID (posts s) postID = None"
  then show "UpdatePost now s postID userID content visibility media =
          (Inl (Status NotFound ''post not found''), s)"
    by (simp add: UpdatePost_valid [OF assms])
next
  assume "postRepo_FindByID (posts s) postID = Some p" and "post_AuthorID p \<noteq> userID"
  then show "UpdatePost now s postID userID content visibility media =
          (Inl (Status PermissionDenied ''you don't have permission to update this post''), s)"
    by (simp add: UpdatePost_valid [OF assms])
next
  assume f: "postRepo_FindByID (posts s) postID = Some p" and a: "post_AuthorID p = userID"
  from UpdatePost_success [OF assms f a, of now media]
  obtain q where q: "UpdatePost now s postID userID content visibility media =
           (Inr q, s\<lparr>posts := map (\<lambda>r. if post_ID r = postID \<and> post_live r
                                        then q\<lparr>post_MediaArray := None\<rparr> else r) (posts s)\<rparr>)"
    and sq: "same_identity p q" and dq: "post_DeletedAt q = None"
    and cq: "post_Content q = content" and uq: "post_UpdatedAt q = now"
    and vq: "post_Visibility q = (if visibility = [] then post_Visibility p else visibility)"
    and aq: "post_MediaArray q = (case media of None \<Rightarrow> post_MediaArray p | Some m \<Rightarrow> Some m)"
    and mq: "media = None \<longrightarrow> post_Media q = post_Media p"
    and nq: "post_Media q \<noteq> MediaInvalid"
    by blast
  obtain r where pr: "parse_media r = Some p" and idr: "post_ID r = postID"
    using FindByID_row [OF f] by blast
  have idq: "post_ID q = postID"
    using sq idr parse_media_fields(1) [OF pr] by (simp add: same_identity_def)
  from FindByID_after_update [OF f idq dq nq]
  obtain stored where st: "postRepo_FindByID
            (map (\<lambda>r. if post_ID r = postID \<and> post_live r then q\<lparr>post_MediaArray := None\<rparr> else r) (posts s)) postID =
              Some stored"
    and eq: "stored = q\<lparr>post_MediaArray := (case post_Media q of MediaJSON xs \<Rightarrow> Some xs | _ \<Rightarrow> None)\<rparr>"
    by blast
  have ar: "post_MediaArray stored = (case post_Media q of MediaJSON xs \<Rightarrow> Some xs | _ \<Rightarrow> None)"
    by (simp add: eq)
  have parr: "post_MediaArray p = (case post_Media p of MediaJSON xs \<Rightarrow> Some xs | _ \<Rightarrow> None)"
    using pr by (auto simp: parse_media_def split: media_column.splits)
  have fields: "same_identity p stored" "post_Content stored = content" "post_UpdatedAt stored = now"
    "post_Visibility stored = post_Visibility q" "post_Media stored = post_Media q"
    using sq cq uq by (simp_all add: eq same_identity_def)
  have "media = None \<longrightarrow> post_Media stored = post_Media p \<and> post_MediaArray stored = post_MediaArray p"
    using mq ar parr fields(5) by simp
  with q st sq cq uq vq aq fields
  show "\<exists>q stored.
           UpdatePost now s postID userID content visibility media =
             (Inr q, s\<lparr>posts := map (\<lambda>r. if post_ID r = postID \<and> post_live r
                                          then q\<lparr>post_MediaArray := None\<rparr> else r) (posts s)\<rparr>) \<and>
           postRepo_FindByID (posts (snd (UpdatePost now s postID userID content visibility media))) postID =
             Some stored \<and>
           same_identity p q \<and> same_identity p stored \<and>
           post_Content q = content \<and> post_Content stored = content \<and>
           post_UpdatedAt q = now \<and> post_UpdatedAt stored = now \<and>
           post_Visibility q = (if visibility = [] then post_Visibility p else visibility) \<and>
           post_Visibility stored = post_Visibility q \<and>
           post_MediaArray q = (case media of None \<Rightarrow> post_MediaArray p | Some m \<Rightarrow> Some m) \<and>
           (media = None \<longrightarrow> post_Media stored = post_Media p \<and>
                             post_MediaArray stored = post_MediaArray p)"
    by (intro exI [of _ q] exI [of _ stored]) simp
qed


lemma FindByID_absent_post:
  "postRepo_FindByID (posts private_store) ''post9'' = None"
  by (simp add: postRepo_FindByID_def private_store_def private_post_def private_group_post_def)

text \<open>
  C8, as stated, fails: the arguments are validated before the post is looked up. With
  an empty content \<open>UpdatePost\<close> answers \<open>InvalidArgument\<close>, not \<open>NotFound\<close>, for a post id
  that does not resolve, and \<open>InvalidArgument\<close>, not \<open>PermissionDenied\<close>, for a user who
  is not the author.
\<close>

theorem UpdatePost_validation_first:
  "postRepo_FindByID (posts private_store) ''post9'' = None \<and>
   UpdatePost 9 private_store ''post9'' ''user1'' [] [] None =
     (Inl (Status InvalidArgument ''content is required''), private_store) \<and>
   postRepo_FindByID (posts private_store) ''post2'' = Some private_post \<and>
   post_AuthorID private_post \<noteq> ''user2'' \<and>
   UpdatePost 9 private_store ''post2'' ''user2'' [] [] None =
     (Inl (Status InvalidArgument ''content is required''), private_store)"
  using FindByID_absent_post FindByID_private_post
  by (simp add: UpdatePost_def) (simp add: private_post_def)

theorem UpdatePost_frame_witness:
  "UpdatePost 9 private_store ''post9'' ''user1'' ''edited'' [] None =
     (Inl (Status NotFound ''post not found''), private_store) \<and>
   UpdatePost 9 private_store ''post2'' ''user2'' ''edited'' [] None =
     (Inl (Status PermissionDenied ''you don't have permission to update this post''), private_store) \<and>
   (\<exists>q stored.
      fst (UpdatePost 9 private_store ''post2'' ''user1'' ''edited'' ''public'' None) = Inr q \<and>
      postRepo_FindByID
        (posts (snd (UpdatePost 9 private_store ''post2'' ''user1'' ''edited'' ''public'' None))) ''post2'' =
        Some stored \<and>
      same_identity private_post stored \<and> post_Content stored = ''edited'' \<and>
      post_Visibility stored = ''public'' \<and> post_UpdatedAt stored = 9 \<and>
      post_Media stored = post_Media private_post)"
proof -
  have a: "post_AuthorID private_post = ''user1''"
    by (simp add: private_post_def)
  have "UpdatePost 9 private_store ''post9'' ''user1'' ''edited'' [] None =
     (Inl (Status NotFound ''post not found''), private_store)"
    using UpdatePost_frame [where postID = "''post9''" and userID = "''user1''" and content = "''edited''"
        and visibility = "[]" and s = private_store and now = 9 and media = None]
      FindByID_absent_post
    by simp
  moreover have "UpdatePost 9 private_store ''post2'' ''user2'' ''edited'' [] None =
     (Inl (Status PermissionDenied ''you don't have permission to update this post''), private_store)"
    using UpdatePost_frame [where postID = "''post2''" and userID = "''user2''" and content = "''edited''"
        and visibility = "[]" and s = private_store and now = 9 and media = None and p = private_post]
      FindByID_private_post a
    by simp
  moreover have "\<exists>q stored.
      fst (UpdatePost 9 private_store ''post2'' ''user1'' ''edited'' ''public'' None) = Inr q \<and>
      postRepo_FindByID
        (posts (snd (UpdatePost 9 private_store ''post2'' ''user1'' ''edited'' ''public'' None))) ''post2'' =
        Some stored \<and>
      same_identity private_post stored \<and> post_Content stored = ''edited'' \<and>
      post_Visibility stored = ''public'' \<and> post_UpdatedAt stored = 9 \<and>
      post_Media stored = post_Media private_post"
    using UpdatePost_frame [where postID = "''post2''" and userID = "''user1''" and content = "''edited''"
        and visibility = "''public''" and s = private_store and now = 9 and media = None and p = private_post]
      FindByID_private_post a
    by auto
  ultimately show ?thesis by blast
qed

section \<open>LikePost and UnlikePost\<close>

lemma find_map_adjust:
  assumes "\<And>r. P r \<Longrightarrow> P (g r)"
  shows "find P (map (\<lambda>r. if P r then g r else r) xs) = map_option g (find P xs)"
  using assms by (induction xs) auto


lemma FindByID_Increment:
  "postRepo_FindByID (postRepo_IncrementLikesCount now pid tbl) pid =
     map_option (\<lambda>p. p\<lparr>post_LikesCount := post_LikesCount p + 1, post_UpdatedAt := now\<rparr>)
       (postRepo_FindByID tbl pid)"
proof -
  have "find (\<lambda>p. post_ID p = pid \<and> post_live p) (postRepo_IncrementLikesCount now pid tbl) =
        map_option (\<lambda>p. p\<lparr>post_LikesCount := post_LikesCount p + 1, post_UpdatedAt := now\<rparr>)
          (find (\<lambda>p. post_ID p = pid \<and> post_live p) tbl)"
    unfolding postRepo_IncrementLikesCount_def
    by (rule find_map_adjust) (simp add: post_live_def)
  then show ?thesis
    by (cases "find (\<lambda>p. post_ID p = pid \<and> post_live p) tbl")
       (auto simp: postRepo_FindByID_def parse_media_def split: media_column.splits)
qed










lemma LikePost_AlreadyExists_iff:
  assumes "postID \<noteq> []" and "userID \<noteq> []"
    and "postRepo_FindByID (posts s) postID = Some p"
  shows "(\<exists>n msg. fst (LikePost now newID s postID userID) = (n, Some (Status AlreadyExists msg))) \<longleftrightarrow>
           likeRepo_FindByPostAndUser (likes s) postID userID \<noteq> None"
    and "likeRepo_FindByPostAndUser (likes s) postID userID \<noteq> None \<Longrightarrow>
           snd (LikePost now newID s postID userID) = s"
  using assms
  by (auto simp: LikePost_def Let_def FindByID_Increment split: option.splits)



lemmas like_defs = LikePost_def UnlikePost_def postRepo_FindByID_def parse_media_def post_live_def
  likeRepo_FindByPostAndUser_def likeRepo_Create_def likeRepo_Delete_def like_live_def
  postRepo_IncrementLikesCount_def postRepo_DecrementLikesCount_def int32_def int64_def wrap_def
  Let_def

lemma scenario_like:
  "LikePost 1 ''like1'' hello_store ''post1'' ''userB'' =
     ((1, None),
      \<lparr>posts = [hello_post\<lparr>post_LikesCount := 1, post_UpdatedAt := 1\<rparr>], comments = [],
       likes = [\<lparr>like_ID = ''like1'', like_PostID = ''post1'', like_UserID = ''userB'',
                 like_CreatedAt = 1, like_DeletedAt = None\<rparr>]\<rparr>)"
  by (simp add: like_defs hello_store_def hello_post_def)

lemma scenario_unlike:
  "UnlikePost 2 (snd (LikePost 1 ''like1'' hello_store ''post1'' ''userB'')) ''post1'' ''userB'' =
     ((0, None), unliked_store)"
  unfolding scenario_like
  by (simp add: like_defs unliked_store_def hello_post_def)



text \<open>
  C4 does not hold on the code. After \<open>userB\<close> has liked and unliked the post, the
  like is a soft-deleted row. \<open>LikePost\<close> finds no live like, and the insert is rejected
  by the unique index on \<open>(post_id, user_id)\<close>, which (unlike the indexes of the
  friendships, friend requests and group members tables) does not include \<open>deleted_at\<close>:
  the call fails with \<open>Internal\<close> and creates no like.
\<close>

theorem LikePost_after_unlike_fails:
  "UnlikePost 2 (snd (LikePost 1 ''like1'' hello_store ''post1'' ''userB'')) ''post1'' ''userB'' =
     ((0, None), unliked_store) \<and>
   postRepo_FindByID (posts unliked_store) ''post1'' \<noteq> None \<and>
   likeRepo_FindByPostAndUser (likes unliked_store) ''post1'' ''userB'' = None \<and>
   LikePost 3 ''like2'' unliked_store ''post1'' ''userB'' =
     ((0, Some (Status Internal ''failed to like post'')), unliked_store)"
  using scenario_unlike
  by (simp add: like_defs unliked_store_def hello_post_def)

section \<open>Friend requests\<close>

lemma CreateFriendship_fresh:
  assumes "\<forall>f\<in>set tbl. friendship_ID f \<noteq> newID"
  shows "friendRepo_CreateFriendship now newID
           \<lparr>friendship_ID = [], friendship_UserID = u, friendship_FriendID = v,
            friendship_CreatedAt = 0, friendship_UpdatedAt = 0, friendship_DeletedAt = None\<rparr> tbl =
         Some (tbl @ [\<lparr>friendship_ID = newID, friendship_UserID = u, friendship_FriendID = v,
                        friendship_CreatedAt = now, friendship_UpdatedAt = now,
                        friendship_DeletedAt = None\<rparr>])"
  using assms by (auto simp: friendRepo_CreateFriendship_def Let_def)

lemma GetFriendRequestByID_after_update:
  assumes "friendRepo_GetFriendRequestByID tbl rid = Some request"
  shows "friendRepo_GetFriendRequestByID
           (map (\<lambda>r. if request_ID r = rid \<and> request_DeletedAt r = None
                      then r\<lparr>request_Status := status, request_UpdatedAt := now\<rparr>
                      else r) tbl) rid =
         Some (request\<lparr>request_Status := status, request_UpdatedAt := now\<rparr>)"
proof -
  have "find (\<lambda>r. request_ID r = rid \<and> request_DeletedAt r = None)
          (map (\<lambda>r. if request_ID r = rid \<and> request_DeletedAt r = None
                      then r\<lparr>request_Status := status, request_UpdatedAt := now\<rparr>
                      else r) tbl) =
        map_option (\<lambda>r. r\<lparr>request_Status := status, request_UpdatedAt := now\<rparr>)
          (find (\<lambda>r. request_ID r = rid \<and> request_DeletedAt r = None) tbl)"
    by (rule find_map_adjust) simp
  then show ?thesis
    using assms by (simp add: friendRepo_GetFriendRequestByID_def)
qed

lemma CheckFriendship_friends:
  assumes "\<lparr>friendship_ID = i, friendship_UserID = u, friendship_FriendID = v,
            friendship_CreatedAt = c, friendship_UpdatedAt = d, friendship_DeletedAt = None\<rparr>
           \<in> set (friendships s)"
  shows "friendRepo_CheckFriendship s u v = (''friends'', [])"
proof -
  let ?P = "\<lambda>f. friendship_UserID f = u \<and> friendship_FriendID f = v \<and> friendship_DeletedAt f = None"
  have "\<exists>f\<in>set (friendships s). ?P f"
    using assms by force
  then have "filter ?P (friendships s) \<noteq> []"
    by (auto simp: filter_empty_conv)
  then have "0 < int (length (filter ?P (friendships s)))"
    by simp
  then show ?thesis
    by (simp add: friendRepo_CheckFriendship_def Let_def)
qed


text \<open>
  C6. For a pending friend request of \<open>a\<close> to \<open>b\<close>, and generated ids that are new to
  the friendships table: \<open>AcceptFriendRequest\<close> by \<open>b\<close> returns the request as accepted,
  stores the status \<open>accepted\<close> and appends exactly the two rows \<open>(a, b)\<close> and
  \<open>(b, a)\<close> to the friendships, after which the repository's \<open>CheckFriendship\<close> answers
  \<open>friends\<close> in both directions (and so does the service's, which answers \<open>self\<close> only
  when \<open>a = b\<close>). \<open>RejectFriendRequest\<close> by \<open>b\<close> stores the status \<open>rejected\<close> and
  leaves the friendships as they are.
\<close>

theorem friend_request_accept_reject:
  assumes "friendRepo_GetFriendRequestByID (friend_requests s) requestID = Some request"
    and "request_Status request = ''pending''"
    and "request_SenderID request = a"
    and "request_ReceiverID request = b"
    and "\<forall>f\<in>set (friendships s). friendship_ID f \<noteq> firstID \<and> friendship_ID f \<noteq> secondID"
    and "firstID \<noteq> secondID"
    and "accepted = snd (AcceptFriendRequest now firstID secondID s requestID b)"
    and "rejected = snd (RejectFriendRequest now s requestID b)"
  shows
    "fst (AcceptFriendRequest now firstID secondID s requestID b) =
       Inr (request\<lparr>request_Status := ''accepted'', request_UpdatedAt := now\<rparr>) \<and>
     map_option request_Status (friendRepo_GetFriendRequestByID (friend_requests accepted) requestID) =
       Some ''accepted'' \<and>
     friendships accepted =
       friendships s @
         [\<lparr>friendship_ID = firstID, friendship_UserID = a, friendship_FriendID = b,
           friendship_CreatedAt = now, friendship_UpdatedAt = now, friendship_DeletedAt = None\<rparr>,
          \<lparr>friendship_ID = secondID, friendship_UserID = b, friendship_FriendID = a,
           friendship_CreatedAt = now, friendship_UpdatedAt = now, friendship_DeletedAt = None\<rparr>] \<and>
     friendRepo_CheckFriendship accepted a b = (''friends'', []) \<and>
     friendRepo_CheckFriendship accepted b a = (''friends'', []) \<and>
     (a \<noteq> b \<longrightarrow> CheckFriendship accepted a b = (''friends'', []) \<and>
                 CheckFriendship accepted b a = (''friends'', [])) \<and>
     fst (RejectFriendRequest now s requestID b) =
       Inr (request\<lparr>request_Status := ''rejected'', request_UpdatedAt := now\<rparr>) \<and>
     map_option request_Status (friendRepo_GetFriendRequestByID (friend_requests rejected) requestID) =
       Some ''rejected'' \<and>
     friendships rejected = friendships s"
proof -
  let ?ab = "\<lparr>friendship_ID = firstID, friendship_UserID = a, friendship_FriendID = b,
           friendship_CreatedAt = now, friendship_UpdatedAt = now, friendship_DeletedAt = None\<rparr>"
  let ?ba = "\<lparr>friendship_ID = secondID, friendship_UserID = b, friendship_FriendID = a,
           friendship_CreatedAt = now, friendship_UpdatedAt = now, friendship_DeletedAt = None\<rparr>"
  let ?upd = "\<lambda>status. map (\<lambda>r. if request_ID r = requestID \<and> request_DeletedAt r = None
                      then r\<lparr>request_Status := status, request_UpdatedAt := now\<rparr>
                      else r) (friend_requests s)"
  have c1: "friendRepo_CreateFriendship now firstID
           \<lparr>friendship_ID = [], friendship_UserID = a, friendship_FriendID = b,
            friendship_CreatedAt = 0, friendship_UpdatedAt = 0, friendship_DeletedAt = None\<rparr>
           (friendships s) = Some (friendships s @ [?ab])"
    using assms(5) by (intro CreateFriendship_fresh) simp
  have c2: "friendRepo_CreateFriendship now secondID
           \<lparr>friendship_ID = [], friendship_UserID = b, friendship_FriendID = a,
            friendship_CreatedAt = 0, friendship_UpdatedAt = 0, friendship_DeletedAt = None\<rparr>
           (friendships s @ [?ab]) = Some ((friendships s @ [?ab]) @ [?ba])"
    using assms(5,6) by (intro CreateFriendship_fresh) auto
  have acc: "AcceptFriendRequest now firstID secondID s requestID b =
      (Inr (request\<lparr>request_Status := ''accepted'', request_UpdatedAt := now\<rparr>),
       s\<lparr>friend_requests := ?upd ''accepted'', friendships := friendships s @ [?ab, ?ba]\<rparr>)"
    using assms(1-4) c1 c2
    by (simp add: AcceptFriendRequest_def friendRepo_UpdateFriendRequestStatus_def Let_def)
  have rej: "RejectFriendRequest now s requestID b =
      (Inr (request\<lparr>request_Status := ''rejected'', request_UpdatedAt := now\<rparr>),
       s\<lparr>friend_requests := ?upd ''rejected''\<rparr>)"
    using assms(1-4)
    by (simp add: RejectFriendRequest_def friendRepo_UpdateFriendRequestStatus_def)
  have fs: "friendships accepted = friendships s @ [?ab, ?ba]"
    and fr: "friend_requests accepted = ?upd ''accepted''"
    and rs: "friendships rejected = friendships s"
    and rr: "friend_requests rejected = ?upd ''rejected''"
    by (simp_all add: assms(7,8) acc rej)
  have ab: "friendRepo_CheckFriendship accepted a b = (''friends'', [])"
    by (rule CheckFriendship_friends [of firstID a b now now]) (simp add: fs)
  have ba: "friendRepo_CheckFriendship accepted b a = (''friends'', [])"
    by (rule CheckFriendship_friends [of secondID b a now now]) (simp add: fs)
  show ?thesis
    using ab ba fs rs
    by (simp add: acc rej fr rr CheckFriendship_def
        GetFriendRequestByID_after_update [OF assms(1)])
qed


lemma seed_request:
  "friendRepo_GetFriendRequestByID (friend_requests seed_friend_store) ''fr-001'' =
     Some \<lparr>request_ID = ''fr-001'', request_SenderID = ''user-001'', request_ReceiverID = ''user-002'',
           request_Status = ''pending'', request_CreatedAt = 0, request_UpdatedAt = 0,
           request_DeletedAt = None\<rparr>"
  by (simp add: friendRepo_GetFriendRequestByID_def seed_friend_store_def)

lemma seed_friendship_ids:
  "\<forall>f\<in>set (friendships seed_friend_store). friendship_ID f \<noteq> ''f-005'' \<and> friendship_ID f \<noteq> ''f-006''"
  by (simp add: seed_friend_store_def)

text \<open>Of two pending requests the one with the least id is reported, wherever it is stored.\<close>

lemma crossed_pending:
  "CheckFriendship crossed_store ''user-001'' ''user-002'' = (''pending'', ''fr-001'')"
  by (simp add: CheckFriendship_def friendRepo_CheckFriendship_def crossed_store_def)

lemma seed_pending:
  "CheckFriendship seed_friend_store ''user-001'' ''user-002'' = (''pending'', ''fr-001'')"
  by (simp add: CheckFriendship_def friendRepo_CheckFriendship_def seed_friend_store_def)

theorem friend_request_accept_reject_witness:
  "CheckFriendship seed_friend_store ''user-001'' ''user-002'' = (''pending'', ''fr-001'') \<and>
   CheckFriendship (snd (AcceptFriendRequest 7 ''f-005'' ''f-006'' seed_friend_store ''fr-001'' ''user-002''))
     ''user-001'' ''user-002'' = (''friends'', []) \<and>
   CheckFriendship (snd (AcceptFriendRequest 7 ''f-005'' ''f-006'' seed_friend_store ''fr-001'' ''user-002''))
     ''user-002'' ''user-001'' = (''friends'', []) \<and>
   length (friendships (snd (AcceptFriendRequest 7 ''f-005'' ''f-006'' seed_friend_store ''fr-001'' ''user-002''))) =
     length (friendships seed_friend_store) + 2 \<and>
   map_option request_Status
     (friendRepo_GetFriendRequestByID
        (friend_requests (snd (RejectFriendRequest 7 seed_friend_store ''fr-001'' ''user-002''))) ''fr-001'') =
     Some ''rejected'' \<and>
   friendships (snd (RejectFriendRequest 7 seed_friend_store ''fr-001'' ''user-002'')) =
     friendships seed_friend_store"
  using friend_request_accept_reject [where s = seed_friend_store and requestID = "''fr-001''"
      and a = "''user-001''" and b = "''user-002''" and firstID = "''f-005''" and secondID = "''f-006''"
      and now = 7
      and request = "\<lparr>request_ID = ''fr-001'', request_SenderID = ''user-001'',
           request_ReceiverID = ''user-002'', request_Status = ''pending'', request_CreatedAt = 0,
           request_UpdatedAt = 0, request_DeletedAt = None\<rparr>"
      and accepted = "snd (AcceptFriendRequest 7 ''f-005'' ''f-006'' seed_friend_store ''fr-001'' ''user-002'')"
      and rejected = "snd (RejectFriendRequest 7 seed_friend_store ''fr-001'' ''user-002'')"]
    seed_request seed_friendship_ids seed_pending
  by simp

section \<open>LeaveGroup\<close>




















end
